theory Spec2Isabelle
  imports Main
begin

section \<open>Strings and paths\<close>

text \<open>
  Python strings are modelled as \<^typ>\<open>string\<close>. \<open>str.lower\<close> is modelled on the
  ASCII letters, which is where it matters for the comparisons of the script: every
  literal the script compares against is lower-case ASCII.
\<close>

definition lower_char :: "char \<Rightarrow> char" where
  "lower_char c =
     (case map_of (zip ''ABCDEFGHIJKLMNOPQRSTUVWXYZ'' ''abcdefghijklmnopqrstuvwxyz'') c of
        Some d \<Rightarrow> d
      | None \<Rightarrow> c)"

definition lower :: "string \<Rightarrow> string" where
  "lower s = map lower_char s"

text \<open>The backslash, which a string literal cannot hold.\<close>

definition bs :: string where
  "bs = [CHR 0x5C]"

section \<open>String literals\<close>

text \<open>
  What Python 3 makes of the characters between the quotes of a string literal that is
  neither raw nor bytes: a text, or no text at all, for a literal it refuses with
  \<open>SyntaxError\<close> when the file is compiled. A backslash starts an escape: the
  one-character escapes, up to three octal digits, \<open>\x\<close>, \<open>\u\<close> and \<open>\U\<close> with
  exactly two, four and eight hexadecimal digits, \<open>\N{name}\<close>, and any other
  character, which is kept together with its backslash. \<open>Beyond\<close> stands for a
  literal that Python may accept but whose text these 8-bit strings cannot hold (a code
  point above 255, a character given by name).
\<close>

datatype literal = Value string | Rejected | Beyond

definition put :: "string \<Rightarrow> literal \<Rightarrow> literal" where
  "put s r = (case r of Value v \<Rightarrow> Value (s @ v) | Rejected \<Rightarrow> Rejected | Beyond \<Rightarrow> Beyond)"

definition beyond :: "literal \<Rightarrow> literal" where
  "beyond r = (case r of Rejected \<Rightarrow> Rejected | _ \<Rightarrow> Beyond)"

definition is_oct :: "char \<Rightarrow> bool" where
  "is_oct c = (c \<in> set ''01234567'')"

definition is_hex :: "char \<Rightarrow> bool" where
  "is_hex c = (c \<in> set ''0123456789abcdefABCDEF'')"

definition digit_value :: "char \<Rightarrow> nat" where
  "digit_value c =
     (case map_of (zip ''0123456789abcdef'' [0 ..< 16] @ zip ''ABCDEF'' [10 ..< 16]) c of
        Some n \<Rightarrow> n
      | None \<Rightarrow> 0)"

definition number :: "nat \<Rightarrow> string \<Rightarrow> nat" where
  "number base ds = foldl (\<lambda>n d. n * base + digit_value d) 0 ds"

definition code_point :: "nat \<Rightarrow> literal \<Rightarrow> literal" where
  "code_point n r =
     (if n < 256 then put [char_of n] r
      else if n \<le> 0x10FFFF then beyond r
      else Rejected)"

definition simple_escapes :: "(char \<times> string) list" where
  "simple_escapes =
     [(CHR ''\<newline>'', []), (CHR 0x5C, [CHR 0x5C]), (CHR 0x27, [CHR 0x27]),
      (CHR 0x22, [CHR 0x22]), (CHR ''a'', [CHR 0x07]), (CHR ''b'', [CHR 0x08]),
      (CHR ''f'', [CHR 0x0C]), (CHR ''n'', [CHR ''\<newline>'']), (CHR ''r'', [CHR 0x0D]),
      (CHR ''t'', [CHR 0x09]), (CHR ''v'', [CHR 0x0B])]"

definition hex_width :: "char \<Rightarrow> nat" where
  "hex_width d = (if d = CHR ''x'' then 2 else if d = CHR ''u'' then 4 else 8)"

function decode_literal :: "string \<Rightarrow> literal" where
  "decode_literal [] = Value []"
| "decode_literal [c] = (if c = CHR 0x5C then Rejected else Value [c])"
| "decode_literal (c # d # ds) =
     (if c \<noteq> CHR 0x5C then put [c] (decode_literal (d # ds))
      else case map_of simple_escapes d of
        Some v \<Rightarrow> put v (decode_literal ds)
      | None \<Rightarrow>
          if is_oct d then
            (let n = length (takeWhile is_oct (take 2 ds))
             in code_point (number 8 (d # take n ds)) (decode_literal (drop n ds)))
          else if d \<in> set ''xuU'' then
            (if length (take (hex_width d) ds) = hex_width d
                \<and> list_all is_hex (take (hex_width d) ds)
             then code_point (number 16 (take (hex_width d) ds))
                    (decode_literal (drop (hex_width d) ds))
             else Rejected)
          else if d = CHR ''N'' then
            (case ds of
               [] \<Rightarrow> Rejected
             | b # rest \<Rightarrow>
                 if b = CHR ''{'' \<and> CHR ''}'' \<in> set rest
                    \<and> takeWhile (\<lambda>x. x \<noteq> CHR ''}'') rest \<noteq> []
                 then beyond (decode_literal (tl (dropWhile (\<lambda>x. x \<noteq> CHR ''}'') rest)))
                 else Rejected)
          else put [c, d] (decode_literal ds))"
  by pat_completeness auto
termination
proof (relation "measure length")
  show "wf (measure length)" by simp
next
  fix c d b :: char and ds rest :: string
  assume "ds = b # rest"
  have "length (dropWhile (\<lambda>x. x \<noteq> CHR ''}'') rest) \<le> length rest"
    by (rule length_dropWhile_le)
  then show "(tl (dropWhile (\<lambda>x. x \<noteq> CHR ''}'') rest), c # d # ds) \<in> measure length"
    using \<open>ds = b # rest\<close> by simp
qed simp_all

section \<open>Paths\<close>

text \<open>
  A \<open>pathlib.Path\<close>: an anchor (\<open>C:\\\<close> or \<open>/\<close>) and the components below it.
  \<open>joinpath\<close> is the operator \<open>/\<close> with a single relative component, \<open>parent\<close> is
  \<open>.parent\<close>, and \<open>str_path\<close> is \<open>str()\<close> for the separator of the platform.
\<close>

datatype path = Path (anchor: string) (parts: "string list")

fun joinpath :: "path \<Rightarrow> string \<Rightarrow> path" where
  "joinpath (Path a ps) c = Path a (ps @ [c])"

fun parent :: "path \<Rightarrow> path" where
  "parent (Path a ps) = Path a (butlast ps)"

fun intercalate :: "string \<Rightarrow> string list \<Rightarrow> string" where
  "intercalate sep [] = []"
| "intercalate sep [x] = x"
| "intercalate sep (x # y # ys) = x @ sep @ intercalate sep (y # ys)"

fun str_path :: "string \<Rightarrow> path \<Rightarrow> string" where
  "str_path sep (Path a ps) = a @ intercalate sep ps"

section \<open>Platform detection\<close>

text \<open>
  \<open>get_python_download_url\<close> (lines 16--32). The arguments are the values of
  \<open>platform.system()\<close> and \<open>platform.machine()\<close>, which the function lower-cases
  itself; \<open>None\<close> is Python's \<open>None\<close>.
\<close>

definition get_python_download_url :: "string \<Rightarrow> string \<Rightarrow> string option" where
  "get_python_download_url system_name machine_name =
     (let system = lower system_name; machine = lower machine_name in
      if system = ''windows'' then
        (if machine = ''amd64'' \<or> machine = ''x86_64''
         then Some ''https://www.python.org/ftp/python/3.10.11/python-3.10.11-embed-amd64.zip''
         else Some ''https://www.python.org/ftp/python/3.10.11/python-3.10.11-embed-win32.zip'')
      else if system = ''linux'' then None
      else if system = ''darwin'' then None
      else None)"

text \<open>
  The supported operating-system family, and what is asked of a download URL here: the
  \<open>https\<close> scheme, a host, a path ending in \<open>.zip\<close>, and no blank or control
  character.
\<close>

definition supported_system :: "string \<Rightarrow> bool" where
  "supported_system system_name = (lower system_name = ''windows'')"

definition amd64_bucket :: "string \<Rightarrow> bool" where
  "amd64_bucket machine_name = (lower machine_name \<in> {''amd64'', ''x86_64''})"

definition has_prefix :: "string \<Rightarrow> string \<Rightarrow> bool" where
  "has_prefix p s = (take (length p) s = p)"

definition has_suffix :: "string \<Rightarrow> string \<Rightarrow> bool" where
  "has_suffix p s = (length p \<le> length s \<and> drop (length s - length p) s = p)"

definition well_formed_url :: "string \<Rightarrow> bool" where
  "well_formed_url u =
     (has_prefix ''https://'' u \<and> has_suffix ''.zip'' u
      \<and> takeWhile (\<lambda>c. c \<noteq> CHR ''/'') (drop 8 u) \<noteq> []
      \<and> dropWhile (\<lambda>c. c \<noteq> CHR ''/'') (drop 8 u) \<noteq> []
      \<and> list_all (\<lambda>c. 32 < (of_char c :: nat) \<and> (of_char c :: nat) < 127) u)"

section \<open>The file system, the outside world and the trace\<close>

text \<open>
  A file-system entry is a regular file with its text, or a directory. The contents of a
  file are the text that Python's text-mode \<open>read\<close> returns and \<open>write\<close> accepts.
  \<open>Path.exists()\<close> is true of both kinds of entry.
\<close>

datatype node = File string | Dir

type_synonym filesystem = "path \<Rightarrow> node option"

datatype error =
  SyntaxError
| FileNotFoundError | FileExistsError | IsADirectoryError | URLError | BadZipFile | OSError

text \<open>
  What a run does to the outside, in order: the lines it prints, the fetches it asks of
  \<open>urllib\<close>, the archives it unpacks and the processes it starts (by argument list).
\<close>

datatype event =
  Print string
| Urlretrieve string path
| ExtractAll path path
| SubprocessRun "string list"

text \<open>
  What the script does not decide: where it lies (\<open>Path(__file__).parent.parent.absolute()\<close>),
  the separator \<open>str()\<close> puts between path components, the two answers of \<open>platform\<close>,
  what a URL serves (\<open>None\<close>: the transfer fails), what unpacking an archive does to
  the file system (\<open>None\<close>: not a readable archive), and what a started process does to
  the file system (\<open>None\<close>: it cannot be started) and exits with.
\<close>

record env =
  project_root :: path
  path_sep :: string
  platform_system :: string
  platform_machine :: string
  fetch :: "string \<Rightarrow> string option"
  unzip :: "string \<Rightarrow> path \<Rightarrow> filesystem \<Rightarrow> filesystem option"
  proc_effect :: "string list \<Rightarrow> filesystem \<Rightarrow> filesystem option"
  proc_status :: "string list \<Rightarrow> filesystem \<Rightarrow> int"

record world =
  fs :: filesystem
  trace :: "event list"

text \<open>
  A step of the script takes the world and returns the world it leaves, with either a
  value or the exception that ended it. An exception ends every step after it; what was
  done before it stays done.
\<close>

type_synonym 'a action = "world \<Rightarrow> (error + 'a) \<times> world"

definition ret :: "'a \<Rightarrow> 'a action" where
  "ret x w = (Inr x, w)"

definition raise :: "error \<Rightarrow> 'a action" where
  "raise e w = (Inl e, w)"

definition bnd :: "'a action \<Rightarrow> ('a \<Rightarrow> 'b action) \<Rightarrow> 'b action" where
  "bnd m f w = (case m w of (Inl e, w') \<Rightarrow> (Inl e, w') | (Inr x, w') \<Rightarrow> f x w')"

definition seq :: "'a action \<Rightarrow> 'b action \<Rightarrow> 'b action" where
  "seq m k = bnd m (\<lambda>_. k)"

definition emit :: "event \<Rightarrow> unit action" where
  "emit e w = (Inr (), w\<lparr>trace := trace w @ [e]\<rparr>)"

definition print :: "string \<Rightarrow> unit action" where
  "print s = emit (Print s)"

definition path_exists :: "path \<Rightarrow> bool action" where
  "path_exists p w = (Inr (fs w p \<noteq> None), w)"

text \<open>\<open>Path.mkdir(exist_ok=True)\<close>: the parent is not created, and a regular file in the way is an error.\<close>

definition mkdir_exist_ok :: "path \<Rightarrow> unit action" where
  "mkdir_exist_ok p w =
     (case fs w p of
        Some Dir \<Rightarrow> (Inr (), w)
      | Some (File c) \<Rightarrow> (Inl FileExistsError, w)
      | None \<Rightarrow>
          if fs w (parent p) = Some Dir then (Inr (), w\<lparr>fs := (fs w)(p \<mapsto> Dir)\<rparr>)
          else (Inl FileNotFoundError, w))"

text \<open>\<open>open(p, 'r')\<close> and \<open>f.read()\<close>.\<close>

definition read_text :: "path \<Rightarrow> string action" where
  "read_text p w =
     (case fs w p of
        Some (File c) \<Rightarrow> (Inr c, w)
      | Some Dir \<Rightarrow> (Inl IsADirectoryError, w)
      | None \<Rightarrow> (Inl FileNotFoundError, w))"

text \<open>\<open>open(p, 'w')\<close> and \<open>f.write(c)\<close>: the file is created or truncated, never appended to.\<close>

definition write_text :: "path \<Rightarrow> string \<Rightarrow> unit action" where
  "write_text p c w =
     (case fs w p of
        Some Dir \<Rightarrow> (Inl IsADirectoryError, w)
      | _ \<Rightarrow>
          if fs w (parent p) = Some Dir then (Inr (), w\<lparr>fs := (fs w)(p \<mapsto> File c)\<rparr>)
          else (Inl FileNotFoundError, w))"

text \<open>\<open>Path.unlink()\<close>.\<close>

definition unlink :: "path \<Rightarrow> unit action" where
  "unlink p w =
     (case fs w p of
        Some (File c) \<Rightarrow> (Inr (), w\<lparr>fs := (fs w)(p := None)\<rparr>)
      | Some Dir \<Rightarrow> (Inl IsADirectoryError, w)
      | None \<Rightarrow> (Inl FileNotFoundError, w))"

text \<open>\<open>urllib.request.urlretrieve(url, filename)\<close>.\<close>

definition urlretrieve :: "env \<Rightarrow> string \<Rightarrow> path \<Rightarrow> unit action" where
  "urlretrieve e url filename =
     seq (emit (Urlretrieve url filename))
       (case fetch e url of
          None \<Rightarrow> raise URLError
        | Some content \<Rightarrow> write_text filename content)"

text \<open>\<open>zipfile.ZipFile(zip_path, 'r')\<close> with \<open>extractall(extract_to)\<close>.\<close>

definition extractall :: "env \<Rightarrow> path \<Rightarrow> path \<Rightarrow> unit action" where
  "extractall e zip_path extract_to =
     bnd (read_text zip_path) (\<lambda>archive.
     seq (emit (ExtractAll zip_path extract_to))
       (\<lambda>w. case unzip e archive extract_to (fs w) of
              None \<Rightarrow> (Inl BadZipFile, w)
            | Some f \<Rightarrow> (Inr (), w\<lparr>fs := f\<rparr>)))"

text \<open>
  \<open>subprocess.run(args)\<close>, without \<open>check=True\<close>: the value is the exit status of the
  process, whatever it is; only a process that cannot be started raises.
\<close>

definition subprocess_run :: "env \<Rightarrow> string list \<Rightarrow> int action" where
  "subprocess_run e args =
     seq (emit (SubprocessRun args))
       (\<lambda>w. case proc_effect e args (fs w) of
              None \<Rightarrow> (Inl OSError, w)
            | Some f \<Rightarrow> (Inr (proc_status e args (fs w)), w\<lparr>fs := f\<rparr>))"

section \<open>The script\<close>

text \<open>\<open>download_file\<close> (lines 34--38) and \<open>extract_zip\<close> (lines 40--45).\<close>

definition download_file :: "env \<Rightarrow> string \<Rightarrow> path \<Rightarrow> unit action" where
  "download_file e url filename =
     seq (print (''Downloading '' @ url @ ''...''))
    (seq (urlretrieve e url filename)
         (print (''Downloaded to '' @ str_path (path_sep e) filename)))"

definition extract_zip :: "env \<Rightarrow> path \<Rightarrow> path \<Rightarrow> unit action" where
  "extract_zip e zip_path extract_to =
     seq (print (''Extracting '' @ str_path (path_sep e) zip_path @ ''...''))
    (seq (extractall e zip_path extract_to)
         (print (''Extracted to '' @ str_path (path_sep e) extract_to)))"

text \<open>The paths of \<open>setup_portable_python\<close> and \<open>create_activation_scripts\<close>.\<close>

definition portable_dir :: "env \<Rightarrow> path" where
  "portable_dir e = joinpath (project_root e) ''portable_python''"

definition python_dir :: "env \<Rightarrow> path" where
  "python_dir e = joinpath (portable_dir e) ''python''"

definition python_zip :: "env \<Rightarrow> path" where
  "python_zip e = joinpath (portable_dir e) ''python.zip''"

definition pth_file :: "env \<Rightarrow> path" where
  "pth_file e = joinpath (python_dir e) ''python310._pth''"

definition pip_script :: "env \<Rightarrow> path" where
  "pip_script e = joinpath (portable_dir e) ''get-pip.py''"

definition python_exe :: "env \<Rightarrow> path" where
  "python_exe e = joinpath (python_dir e) ''python.exe''"

definition requirements_file :: "env \<Rightarrow> path" where
  "requirements_file e = joinpath (project_root e) ''requirements.txt''"

definition activate_bat :: "env \<Rightarrow> path" where
  "activate_bat e = joinpath (project_root e) ''activate_portable.bat''"

definition deactivate_bat :: "env \<Rightarrow> path" where
  "deactivate_bat e = joinpath (project_root e) ''deactivate_portable.bat''"

text \<open>
  Line 81 as the file has it: the characters between the quotes of
  \<open>"..\n..\src\n..\src\utils\n"\<close>. Its \<open>\u\<close> starts a four-digit escape that
  \<open>tils\<close> does not finish. Beside it, the same line with its backslashes written the
  way line 124 writes them (\<open>\\src\\utils\<close>), and the three lines that one holds.
\<close>

definition line_81_source :: string where
  "line_81_source =
     ''..'' @ bs @ ''n..'' @ bs @ ''src'' @ bs @ ''n..'' @ bs @ ''src'' @ bs @ ''utils'' @ bs @ ''n''"

definition line_81_escaped :: string where
  "line_81_escaped =
     ''..'' @ bs @ ''n..'' @ bs @ bs @ ''src'' @ bs @ ''n..'' @ bs @ bs @ ''src'' @ bs @ bs
       @ ''utils'' @ bs @ ''n''"

definition pth_lines_escaped :: "string list" where
  "pth_lines_escaped = [''..'', ''..'' @ bs @ ''src'', ''..'' @ bs @ ''src'' @ bs @ ''utils'']"

definition pth_prefix_escaped :: string where
  "pth_prefix_escaped = concat (map (\<lambda>l. l @ ''\<newline>'') pth_lines_escaped)"

text \<open>
  A function whose body holds the literal of line 81 exists only if the file compiles.
  \<open>compiled body\<close> is the function as the file gives it: the body with the text of
  the literal, or \<open>SyntaxError\<close>, raised before a line of the body has run. A
  literal beyond these strings has no text here to run the body with; the literal of
  line 81 is not one.
\<close>

definition compiled :: "(string \<Rightarrow> 'a action) \<Rightarrow> 'a action" where
  "compiled body =
     (case decode_literal line_81_source of
        Value line_81 \<Rightarrow> body line_81
      | Rejected \<Rightarrow> raise SyntaxError
      | Beyond \<Rightarrow> raise SyntaxError)"

text \<open>
  The patch of the path manifest (lines 74--84), for a text \<open>line_81\<close> of the literal,
  and the patch as the file has it.
\<close>

definition patch_pth_file :: "string \<Rightarrow> env \<Rightarrow> unit action" where
  "patch_pth_file line_81 e =
     bnd (path_exists (pth_file e)) (\<lambda>present.
       if present then
         bnd (read_text (pth_file e)) (\<lambda>content.
           write_text (pth_file e) (line_81 @ content))
       else ret ())"

definition patch_step :: "env \<Rightarrow> unit action" where
  "patch_step e = compiled (\<lambda>line_81. patch_pth_file line_81 e)"

text \<open>The fetch of the installer script (lines 87--90) and its run (lines 93--95).\<close>

definition get_pip_url :: string where
  "get_pip_url = ''https://bootstrap.pypa.io/get-pip.py''"

definition fetch_get_pip :: "env \<Rightarrow> unit action" where
  "fetch_get_pip e =
     bnd (path_exists (pip_script e)) (\<lambda>present.
       if \<not> present then
         seq (print ''Downloading get-pip.py...'')
             (urlretrieve e get_pip_url (pip_script e))
       else ret ())"

definition pip_bootstrap_args :: "env \<Rightarrow> string list" where
  "pip_bootstrap_args e =
     [str_path (path_sep e) (python_exe e), str_path (path_sep e) (pip_script e),
      ''--no-warn-script-location'']"

definition pip_install_args :: "env \<Rightarrow> string list" where
  "pip_install_args e =
     [str_path (path_sep e) (python_exe e), ''-m'', ''pip'', ''install'', ''-r'',
      str_path (path_sep e) (requirements_file e), ''--no-warn-script-location'']"

definition bootstrap_pip :: "env \<Rightarrow> unit action" where
  "bootstrap_pip e =
     seq (fetch_get_pip e)
    (seq (print ''Installing pip...'')
    (seq (subprocess_run e (pip_bootstrap_args e))
         (ret ())))"

text \<open>\<open>create_activation_scripts\<close> (lines 113--144).\<close>

definition activate_text :: "env \<Rightarrow> string" where
  "activate_text e =
     (let root = str_path (path_sep e) (project_root e);
          pydir = str_path (path_sep e) (python_dir e) in
      ''@echo off\<newline>''
      @ ''echo Activating portable Python environment...\<newline>''
      @ ''set PYTHONPATH='' @ root @ '';'' @ root @ bs @ ''src;'' @ root @ bs @ ''src'' @ bs
        @ ''utils;%PYTHONPATH%\<newline>''
      @ ''set PATH='' @ pydir @ '';'' @ pydir @ bs @ ''Scripts;%PATH%\<newline>''
      @ ''echo Portable Python environment activated.\<newline>''
      @ ''echo To run the application, use: python src'' @ bs @ ''main.py\<newline>''
      @ ''cmd /k\<newline>'')"

definition deactivate_text :: string where
  "deactivate_text =
     ''@echo off\<newline>''
     @ ''echo Deactivating portable Python environment...\<newline>''
     @ ''set PYTHONPATH=\<newline>''
     @ ''set PATH=%ORIGINAL_PATH%\<newline>''
     @ ''echo Portable Python environment deactivated.\<newline>''
     @ ''cmd /k\<newline>''"

definition create_activation_scripts :: "env \<Rightarrow> unit action" where
  "create_activation_scripts e =
     seq (write_text (activate_bat e) (activate_text e))
    (seq (write_text (deactivate_bat e) deactivate_text)
    (seq (print ''Activation scripts created:'')
    (seq (print (''  - '' @ str_path (path_sep e) (activate_bat e)))
         (print (''  - '' @ str_path (path_sep e) (deactivate_bat e))))))"

text \<open>
  The body of \<open>setup_portable_python\<close> (lines 47--111) for a text \<open>line_81\<close> of the
  literal, in the order of the source: the directories (lines 53--57), the runtime or
  the refusal (lines 60--70), and then, in \<open>configure_and_install\<close>, the path manifest,
  the installer, the dependencies or the refusal (lines 98--104), and the scripts
  (lines 107--111). \<open>setup_portable_python\<close> itself is that body compiled.
\<close>

definition create_directories :: "env \<Rightarrow> unit action" where
  "create_directories e =
     seq (print (''Setting up portable Python environment in ''
                 @ str_path (path_sep e) (python_dir e)))
    (seq (mkdir_exist_ok (portable_dir e))
         (mkdir_exist_ok (python_dir e)))"

definition install_runtime :: "env \<Rightarrow> string \<Rightarrow> unit action" where
  "install_runtime e python_url =
     seq (download_file e python_url (python_zip e))
    (seq (extract_zip e (python_zip e) (python_dir e))
         (unlink (python_zip e)))"

definition install_dependencies :: "env \<Rightarrow> bool action" where
  "install_dependencies e =
     bnd (path_exists (requirements_file e)) (\<lambda>present.
       if present then
         seq (print ''Installing project dependencies...'')
        (seq (subprocess_run e (pip_install_args e))
        (seq (create_activation_scripts e)
        (seq (print ''Portable Python environment setup complete!'')
        (seq (print (''Python executable: '' @ str_path (path_sep e) (python_exe e)))
             (ret True)))))
       else
         seq (print ''requirements.txt not found. Please create it with your project dependencies.'')
             (ret False))"

definition configure_and_install :: "string \<Rightarrow> env \<Rightarrow> bool action" where
  "configure_and_install line_81 e =
     seq (patch_pth_file line_81 e)
    (seq (bootstrap_pip e)
         (install_dependencies e))"

definition setup_portable_python_with :: "string \<Rightarrow> env \<Rightarrow> bool action" where
  "setup_portable_python_with line_81 e =
     seq (create_directories e)
       (case get_python_download_url (platform_system e) (platform_machine e) of
          Some python_url \<Rightarrow>
            seq (install_runtime e python_url) (configure_and_install line_81 e)
        | None \<Rightarrow>
            seq (print ''Could not determine Python download URL for your system.'')
           (seq (print ''Please install Python 3.10 manually in the portable_python/python directory.'')
                (ret False)))"

definition setup_portable_python :: "env \<Rightarrow> bool action" where
  "setup_portable_python e = compiled (\<lambda>line_81. setup_portable_python_with line_81 e)"

text \<open>The events a run adds to the trace.\<close>

definition events_since :: "world \<Rightarrow> world \<Rightarrow> event list" where
  "events_since w w' = drop (length (trace w)) (trace w')"

text \<open>
  What a line of the path manifest names. This is the rule of the embedded interpreter, not
  of the script: an entry that is not absolute is taken from the directory that holds
  the manifest, \<open>..\<close> stepping to the parent.
\<close>

fun split_on :: "char \<Rightarrow> string \<Rightarrow> string list" where
  "split_on c [] = [[]]"
| "split_on c (x # xs) =
     (if x = c then [] # split_on c xs
      else (case split_on c xs of [] \<Rightarrow> [[x]] | y # ys \<Rightarrow> (x # y) # ys))"

fun walk :: "path \<Rightarrow> string list \<Rightarrow> path" where
  "walk d [] = d"
| "walk d (c # cs) = walk (if c = ''..'' then parent d else joinpath d c) cs"

definition denoted_dir :: "path \<Rightarrow> string \<Rightarrow> path" where
  "denoted_dir base line = walk base (split_on (CHR 0x5C) line)"

text \<open>Whether a text occurs in another.\<close>

fun occurs_in :: "string \<Rightarrow> string \<Rightarrow> bool" where
  "occurs_in p [] = (p = [])"
| "occurs_in p (x # xs) = (take (length p) (x # xs) = p \<or> occurs_in p xs)"

text \<open>
  Whether \<open>mkdir(exist_ok=True)\<close> goes through, and whether the two directories of the
  script can be made, one after the other.
\<close>

definition can_mkdir :: "filesystem \<Rightarrow> path \<Rightarrow> bool" where
  "can_mkdir f p =
     (case f p of Some Dir \<Rightarrow> True | Some (File c) \<Rightarrow> False | None \<Rightarrow> f (parent p) = Some Dir)"

definition directories_creatable :: "env \<Rightarrow> filesystem \<Rightarrow> bool" where
  "directories_creatable e f =
     (can_mkdir f (portable_dir e)
      \<and> (case f (python_dir e) of Some (File c) \<Rightarrow> False | _ \<Rightarrow> True))"

section \<open>Two machines to run the script on\<close>

text \<open>
  A Windows machine with the project in \<open>C:\proj\<close>: the archive holds the interpreter
  and its path manifest, every URL answers, and both processes start, change nothing and
  exit with status 1. And a Linux machine with the project in \<open>/proj\<close>.
\<close>

definition windows_env :: env where
  "windows_env =
     \<lparr>project_root = Path (''C:'' @ bs) [''proj''],
      path_sep = bs,
      platform_system = ''Windows'',
      platform_machine = ''AMD64'',
      fetch = (\<lambda>url. Some ''bytes''),
      unzip = (\<lambda>archive dest f.
                 Some (f(joinpath dest ''python310._pth'' \<mapsto> File ''python310.zip\<newline>.\<newline>'',
                         joinpath dest ''python.exe'' \<mapsto> File ''MZ''))),
      proc_effect = (\<lambda>args f. Some f),
      proc_status = (\<lambda>args f. 1)\<rparr>"

definition linux_env :: env where
  "linux_env =
     windows_env\<lparr>project_root := Path ''/'' [''proj''], path_sep := ''/'',
                 platform_system := ''Linux'', platform_machine := ''x86_64''\<rparr>"

text \<open>
  The project as it is checked out: the root, the directory of the script, and, in the
  first of the two worlds, the dependency manifest.
\<close>

definition checkout :: "env \<Rightarrow> world" where
  "checkout e =
     \<lparr>fs = [project_root e \<mapsto> Dir, portable_dir e \<mapsto> Dir,
            requirements_file e \<mapsto> File ''requests\<newline>''],
      trace = []\<rparr>"

definition checkout_without_requirements :: "env \<Rightarrow> world" where
  "checkout_without_requirements e =
     \<lparr>fs = [project_root e \<mapsto> Dir, portable_dir e \<mapsto> Dir], trace = []\<rparr>"

text \<open>
  The same project with an installer script left by an earlier run, and with the archive
  already unpacked, without and with a path manifest in it.
\<close>

definition checkout_with_installer :: "env \<Rightarrow> world" where
  "checkout_with_installer e =
     (checkout e)\<lparr>fs := (fs (checkout e))(pip_script e \<mapsto> File ''# an earlier copy'')\<rparr>"

definition checkout_unpacked_bare :: "env \<Rightarrow> world" where
  "checkout_unpacked_bare e =
     (checkout e)\<lparr>fs := (fs (checkout e))
        (python_dir e \<mapsto> Dir, python_exe e \<mapsto> File ''MZ'')\<rparr>"

definition checkout_unpacked :: "env \<Rightarrow> world" where
  "checkout_unpacked e =
     (checkout e)\<lparr>fs := (fs (checkout e))
        (python_dir e \<mapsto> Dir,
         pth_file e \<mapsto> File ''python310.zip\<newline>.\<newline>'',
         python_exe e \<mapsto> File ''MZ'')\<rparr>"

section \<open>Assumptions on the outside and invariants of a run\<close>

text \<open>
  An archive and processes that do not create the file at \<open>p\<close>: whatever they do to
  the file system, if nothing was at \<open>p\<close> before, nothing is there after.
\<close>

definition keeps_absent :: "env \<Rightarrow> path \<Rightarrow> bool" where
  "keeps_absent e p =
     ((\<forall>archive dest f f'. unzip e archive dest f = Some f' \<longrightarrow> f p = None \<longrightarrow> f' p = None)
      \<and> (\<forall>args f f'. proc_effect e args f = Some f' \<longrightarrow> f p = None \<longrightarrow> f' p = None))"

text \<open>A step keeps a property of the world, however the step ends.\<close>

definition preserves :: "(world \<Rightarrow> bool) \<Rightarrow> 'a action \<Rightarrow> bool" where
  "preserves I m = (\<forall>w. I w \<longrightarrow> I (snd (m w)))"

text \<open>
  Since the trace was \<open>t0\<close>, the dependencies have not been asked for, and the
  dependency manifest is not there.
\<close>

definition no_install_yet :: "env \<Rightarrow> event list \<Rightarrow> world \<Rightarrow> bool" where
  "no_install_yet e t0 w =
     (fs w (requirements_file e) = None
      \<and> (\<exists>evs. trace w = t0 @ evs \<and> SubprocessRun (pip_install_args e) \<notin> set evs))"

section \<open>Resolving the download target\<close>

lemmas step_defs = ret_def raise_def bnd_def seq_def emit_def print_def path_exists_def

lemma url_amd64_well_formed:
  "well_formed_url ''https://www.python.org/ftp/python/3.10.11/python-3.10.11-embed-amd64.zip''"
  by (simp add: well_formed_url_def has_prefix_def has_suffix_def)

lemma url_win32_well_formed:
  "well_formed_url ''https://www.python.org/ftp/python/3.10.11/python-3.10.11-embed-win32.zip''"
  by (simp add: well_formed_url_def has_prefix_def has_suffix_def)

text \<open>
  C2. For every platform descriptor: when the operating system is the supported one
  (Windows, in any spelling of upper and lower case), \<open>get_python_download_url\<close>
  returns a well-formed URL, the 64-bit archive for the machines \<open>amd64\<close> and
  \<open>x86_64\<close> and the 32-bit archive for every other machine; for every other operating
  system it returns \<open>None\<close>.
\<close>

theorem get_python_download_url_by_platform:
  "(supported_system s \<longrightarrow>
      (\<exists>u. get_python_download_url s m = Some u \<and> well_formed_url u)
      \<and> (amd64_bucket m \<longrightarrow> get_python_download_url s m =
            Some ''https://www.python.org/ftp/python/3.10.11/python-3.10.11-embed-amd64.zip'')
      \<and> (\<not> amd64_bucket m \<longrightarrow> get_python_download_url s m =
            Some ''https://www.python.org/ftp/python/3.10.11/python-3.10.11-embed-win32.zip''))
   \<and> (\<not> supported_system s \<longrightarrow> get_python_download_url s m = None)"
  using url_amd64_well_formed url_win32_well_formed
  by (simp add: get_python_download_url_def supported_system_def amd64_bucket_def Let_def)

theorem get_python_download_url_by_platform_witness:
  "supported_system ''Windows'' \<and> amd64_bucket ''AMD64'' \<and> \<not> amd64_bucket ''ARM64''
   \<and> \<not> supported_system ''Linux'' \<and> \<not> supported_system ''Darwin''
   \<and> get_python_download_url ''Windows'' ''AMD64'' =
        Some ''https://www.python.org/ftp/python/3.10.11/python-3.10.11-embed-amd64.zip''
   \<and> get_python_download_url ''Windows'' ''ARM64'' =
        Some ''https://www.python.org/ftp/python/3.10.11/python-3.10.11-embed-win32.zip''
   \<and> get_python_download_url ''Linux'' ''x86_64'' = None
   \<and> get_python_download_url ''Darwin'' ''arm64'' = None"
  using get_python_download_url_by_platform [of "''Windows''" "''AMD64''"]
    get_python_download_url_by_platform [of "''Windows''" "''ARM64''"]
    get_python_download_url_by_platform [of "''Linux''" "''x86_64''"]
    get_python_download_url_by_platform [of "''Darwin''" "''arm64''"]
  by (simp add: supported_system_def amd64_bucket_def lower_def lower_char_def)

section \<open>Facts about paths, traces and the steps\<close>

lemma parent_joinpath [simp]: "parent (joinpath p c) = p"
  by (cases p) simp

lemma joinpath_neq_self [simp]: "joinpath p c \<noteq> p" "p \<noteq> joinpath p c"
  by (cases p; simp)+

lemma joinpath_eq_iff [simp]: "joinpath p c = joinpath q d \<longleftrightarrow> p = q \<and> c = d"
  by (cases p; cases q) auto

lemma joinpath2_neq [simp]: "joinpath (joinpath p c) d \<noteq> p" "p \<noteq> joinpath (joinpath p c) d"
  by (cases p; simp)+

lemma joinpath2_neq_joinpath [simp]:
  "joinpath (joinpath p c) d \<noteq> joinpath p x" "joinpath p x \<noteq> joinpath (joinpath p c) d"
  by (cases p; simp)+

lemmas path_defs = portable_dir_def python_dir_def python_zip_def pth_file_def pip_script_def
  python_exe_def requirements_file_def activate_bat_def deactivate_bat_def

lemma events_since_append:
  "trace w' = trace w @ evs \<Longrightarrow> events_since w w' = evs"
  by (simp add: events_since_def)

lemma events_since_self [simp]: "events_since w w = []"
  by (simp add: events_since_def)

section \<open>Line 81\<close>

text \<open>
  The literal of line 81 is not a string: Python refuses it. Written with its backslashes
  escaped it is one, and holds the three lines.
\<close>

lemmas literal_defs = bs_def simple_escapes_def put_def is_oct_def is_hex_def hex_width_def

lemma line_81_rejected: "decode_literal line_81_source = Rejected"
  by (simp add: line_81_source_def literal_defs)

lemma line_81_escaped_value: "decode_literal line_81_escaped = Value pth_prefix_escaped"
  by (simp add: line_81_escaped_def pth_prefix_escaped_def pth_lines_escaped_def literal_defs)

lemma compiled_raises: "compiled body w = (Inl SyntaxError, w)"
  by (simp add: compiled_def line_81_rejected raise_def)

lemma setup_portable_python_raises: "setup_portable_python e w = (Inl SyntaxError, w)"
  by (simp add: setup_portable_python_def compiled_raises)

lemma patch_step_raises: "patch_step e w = (Inl SyntaxError, w)"
  by (simp add: patch_step_def compiled_raises)

section \<open>The path manifest\<close>

lemma patch_absent:
  "fs w (pth_file e) = None \<Longrightarrow> patch_pth_file p e w = (Inr (), w)"
  by (simp add: patch_pth_file_def step_defs)

lemma patch_present:
  "fs w (pth_file e) = Some (File T) \<Longrightarrow> fs w (python_dir e) = Some Dir \<Longrightarrow>
   patch_pth_file p e w = (Inr (), w\<lparr>fs := (fs w)(pth_file e \<mapsto> File (p @ T))\<rparr>)"
  by (simp add: patch_pth_file_def step_defs read_text_def write_text_def pth_file_def)

lemma pth_lines_denote:
  "map (denoted_dir (python_dir e)) pth_lines_escaped =
     [portable_dir e, joinpath (portable_dir e) ''src'',
      joinpath (joinpath (portable_dir e) ''src'') ''utils'']"
  by (simp add: pth_lines_escaped_def denoted_dir_def bs_def python_dir_def)

text \<open>
  C1. When the path manifest is a file with text \<open>T\<close> in the runtime directory, the
  claim has the patch rewrite it to three lines, the project root and two of its
  subdirectories, followed by \<open>T\<close>. The script does not. As the file is written, the
  literal of line 81 is refused, so the patch raises \<open>SyntaxError\<close> and the manifest
  keeps its text. Written with its backslashes escaped, the literal holds three lines,
  \<open>..\<close>, \<open>..\src\<close> and \<open>..\src\utils\<close>, and the patch, which for any text of
  the literal writes that text followed by \<open>T\<close>, prepends them; but taken from the
  runtime directory \<open>portable_python/python\<close>, where the manifest lies, they name
  \<open>portable_python\<close>, \<open>portable_python/src\<close> and \<open>portable_python/src/utils\<close>,
  and not the project root and its \<open>src\<close> and \<open>src/utils\<close>, which are what
  \<open>create_activation_scripts\<close> puts on \<open>PYTHONPATH\<close>.
\<close>

theorem patch_pth_file_prepends:
  assumes "fs w (pth_file e) = Some (File T)" and "fs w (python_dir e) = Some Dir"
  shows "decode_literal line_81_source = Rejected
         \<and> patch_step e w = (Inl SyntaxError, w)
         \<and> decode_literal line_81_escaped
             = Value (concat (map (\<lambda>l. l @ ''\<newline>'') pth_lines_escaped))
         \<and> (\<forall>p. patch_pth_file p e w =
                 (Inr (), w\<lparr>fs := (fs w)(pth_file e \<mapsto> File (p @ T))\<rparr>))
         \<and> patch_pth_file (concat (map (\<lambda>l. l @ ''\<newline>'') pth_lines_escaped)) e w =
             (Inr (), w\<lparr>fs := (fs w)(pth_file e \<mapsto>
                File (concat (map (\<lambda>l. l @ ''\<newline>'') pth_lines_escaped) @ T))\<rparr>)
         \<and> length pth_lines_escaped = 3
         \<and> map (denoted_dir (python_dir e)) pth_lines_escaped =
             [portable_dir e, joinpath (portable_dir e) ''src'',
              joinpath (joinpath (portable_dir e) ''src'') ''utils'']
         \<and> map (denoted_dir (python_dir e)) pth_lines_escaped \<noteq>
             [project_root e, joinpath (project_root e) ''src'',
              joinpath (joinpath (project_root e) ''src'') ''utils'']"
proof -
  have "decode_literal line_81_escaped
             = Value (concat (map (\<lambda>l. l @ ''\<newline>'') pth_lines_escaped))"
    using line_81_escaped_value by (simp add: pth_prefix_escaped_def)
  moreover have "length pth_lines_escaped = 3"
    by (simp add: pth_lines_escaped_def)
  moreover have "portable_dir e \<noteq> project_root e"
    by (simp add: portable_dir_def)
  ultimately show ?thesis
    using pth_lines_denote [of e] patch_present [OF assms] line_81_rejected
      patch_step_raises [of e w]
    by simp
qed

theorem patch_pth_file_prepends_witness:
  "fs (checkout_unpacked windows_env) (pth_file windows_env)
     = Some (File ''python310.zip\<newline>.\<newline>'')
   \<and> fs (checkout_unpacked windows_env) (python_dir windows_env) = Some Dir
   \<and> patch_step windows_env (checkout_unpacked windows_env)
       = (Inl SyntaxError, checkout_unpacked windows_env)
   \<and> fs (snd (patch_pth_file pth_prefix_escaped windows_env (checkout_unpacked windows_env)))
        (pth_file windows_env)
       = Some (File (''..\<newline>..'' @ bs @ ''src\<newline>..'' @ bs @ ''src'' @ bs
                     @ ''utils\<newline>python310.zip\<newline>.\<newline>''))
   \<and> denoted_dir (python_dir windows_env) ''..''
       = Path (''C:'' @ bs) [''proj'', ''portable_python'']
   \<and> project_root windows_env = Path (''C:'' @ bs) [''proj'']"
proof -
  have a: "fs (checkout_unpacked windows_env) (pth_file windows_env)
     = Some (File ''python310.zip\<newline>.\<newline>'')"
    by (simp add: checkout_unpacked_def checkout_def path_defs windows_env_def)
  have b: "fs (checkout_unpacked windows_env) (python_dir windows_env) = Some Dir"
    by (simp add: checkout_unpacked_def checkout_def path_defs windows_env_def)
  have c: "denoted_dir (python_dir windows_env) ''..''
       = Path (''C:'' @ bs) [''proj'', ''portable_python'']"
    by (simp add: denoted_dir_def path_defs windows_env_def)
  have d: "project_root windows_env = Path (''C:'' @ bs) [''proj'']"
    by (simp add: windows_env_def)
  note t = patch_pth_file_prepends [OF a b]
  from t have "patch_step windows_env (checkout_unpacked windows_env)
       = (Inl SyntaxError, checkout_unpacked windows_env)"
    by blast
  moreover from t
  have "fs (snd (patch_pth_file pth_prefix_escaped windows_env (checkout_unpacked windows_env)))
        (pth_file windows_env)
       = Some (File (''..\<newline>..'' @ bs @ ''src\<newline>..'' @ bs @ ''src'' @ bs
                     @ ''utils\<newline>python310.zip\<newline>.\<newline>''))"
    by (simp add: pth_prefix_escaped_def pth_lines_escaped_def)
  ultimately show ?thesis using a b c d by simp
qed

text \<open>
  The body, whatever the text of the literal: when the path manifest is not there, the
  patch leaves the world as it is (no file is touched and nothing is printed) and
  raises nothing, and the body goes on with the installer.
\<close>

lemma patch_pth_file_absent_is_skip:
  assumes "fs w (pth_file e) = None"
  shows "patch_pth_file lit e w = (Inr (), w)
         \<and> configure_and_install lit e w = seq (bootstrap_pip e) (install_dependencies e) w"
  using patch_absent [OF assms] by (simp add: configure_and_install_def seq_def bnd_def)

lemma patch_pth_file_absent_is_skip_example:
  "fs (checkout windows_env) (pth_file windows_env) = None
   \<and> patch_pth_file pth_prefix_escaped windows_env (checkout windows_env) = (Inr (), checkout windows_env)
   \<and> configure_and_install pth_prefix_escaped windows_env (checkout windows_env)
       = seq (bootstrap_pip windows_env) (install_dependencies windows_env) (checkout windows_env)"
proof -
  have a: "fs (checkout windows_env) (pth_file windows_env) = None"
    by (simp add: checkout_def path_defs windows_env_def)
  from patch_pth_file_absent_is_skip [OF a] a show ?thesis by simp
qed

section \<open>The installer script\<close>

lemma fetch_get_pip_present:
  "fs w (pip_script e) \<noteq> None \<Longrightarrow> fetch_get_pip e w = (Inr (), w)"
  by (simp add: fetch_get_pip_def step_defs)

lemma fetch_get_pip_absent:
  "fs w (pip_script e) = None \<Longrightarrow>
   trace (snd (fetch_get_pip e w)) =
     trace w @ [Print ''Downloading get-pip.py...'', Urlretrieve get_pip_url (pip_script e)]"
  by (auto simp: fetch_get_pip_def step_defs urlretrieve_def write_text_def
      split: option.splits node.splits)

lemma fetch_get_pip_absent_ok:
  "fs w (pip_script e) = None \<Longrightarrow> fetch e get_pip_url = Some c \<Longrightarrow>
   fs w (portable_dir e) = Some Dir \<Longrightarrow>
   fetch_get_pip e w =
     (Inr (), w\<lparr>trace := trace w @ [Print ''Downloading get-pip.py...'',
                                     Urlretrieve get_pip_url (pip_script e)],
                 fs := (fs w)(pip_script e \<mapsto> File c)\<rparr>)"
  by (auto simp: fetch_get_pip_def step_defs urlretrieve_def write_text_def pip_script_def
      split: option.splits node.splits)

lemma run_installer:
  "seq (print ''Installing pip...'') (seq (subprocess_run e (pip_bootstrap_args e)) (ret ())) w =
     (case proc_effect e (pip_bootstrap_args e) (fs w) of
        None \<Rightarrow> (Inl OSError, w\<lparr>trace := trace w @ [Print ''Installing pip...'',
                                     SubprocessRun (pip_bootstrap_args e)]\<rparr>)
      | Some f \<Rightarrow> (Inr (), w\<lparr>trace := trace w @ [Print ''Installing pip...'',
                                     SubprocessRun (pip_bootstrap_args e)], fs := f\<rparr>))"
  by (simp add: step_defs subprocess_run_def split: option.splits)

lemma fetch_get_pip_absent_cases:
  assumes "fs w (pip_script e) = None"
  shows "fetch e get_pip_url = None \<longrightarrow>
           fst (fetch_get_pip e w) = Inl URLError \<and> fs (snd (fetch_get_pip e w)) = fs w"
    and "fetch e get_pip_url = Some c \<and> fs w (portable_dir e) = Some Dir \<longrightarrow>
           fst (fetch_get_pip e w) = Inr ()
           \<and> fs (snd (fetch_get_pip e w)) = (fs w)(pip_script e \<mapsto> File c)"
    and "fetch e get_pip_url = Some c \<and> fs w (portable_dir e) \<noteq> Some Dir \<longrightarrow>
           fst (fetch_get_pip e w) = Inl FileNotFoundError
           \<and> fs (snd (fetch_get_pip e w)) = fs w"
  using assms
  by (auto simp: fetch_get_pip_def step_defs urlretrieve_def write_text_def pip_script_def
      split: option.splits node.splits)

text \<open>
  The fetch of the installer script, which does not depend on the literal. It is asked
  of the network, from the fixed URL and to its fixed place, exactly when nothing exists
  at that place: then a transfer that fails raises \<open>URLError\<close>, and one that succeeds
  leaves what the URL served at that place. When something does exist there, the step
  changes nothing and asks nothing of the network, and the installer is run on the file
  system as it was found.
\<close>

lemma get_pip_fetched_iff_absent:
  "(fs w (pip_script e) \<noteq> None \<longrightarrow>
      fetch_get_pip e w = (Inr (), w)
      \<and> bootstrap_pip e w =
          (case proc_effect e (pip_bootstrap_args e) (fs w) of
             None \<Rightarrow> (Inl OSError, w\<lparr>trace := trace w @ [Print ''Installing pip...'',
                                     SubprocessRun (pip_bootstrap_args e)]\<rparr>)
           | Some f \<Rightarrow> (Inr (), w\<lparr>trace := trace w @ [Print ''Installing pip...'',
                                     SubprocessRun (pip_bootstrap_args e)], fs := f\<rparr>)))
   \<and> (fs w (pip_script e) = None \<longrightarrow>
        events_since w (snd (fetch_get_pip e w)) =
          [Print ''Downloading get-pip.py...'', Urlretrieve get_pip_url (pip_script e)])
   \<and> ((\<exists>url p. Urlretrieve url p \<in> set (events_since w (snd (fetch_get_pip e w))))
        \<longleftrightarrow> fs w (pip_script e) = None)"
proof (cases "fs w (pip_script e) = None")
  case True
  from events_since_append [OF fetch_get_pip_absent [OF True]]
  show ?thesis using True by auto
next
  case False
  then have p: "fetch_get_pip e w = (Inr (), w)" by (rule fetch_get_pip_present)
  have "bootstrap_pip e w =
     seq (print ''Installing pip...'') (seq (subprocess_run e (pip_bootstrap_args e)) (ret ())) w"
    using p by (simp add: bootstrap_pip_def seq_def bnd_def)
  then show ?thesis using False p run_installer [of e w] by simp
qed

lemma get_pip_fetched_iff_absent_example:
  "fs (checkout_with_installer windows_env) (pip_script windows_env) \<noteq> None
   \<and> fetch_get_pip windows_env (checkout_with_installer windows_env)
       = (Inr (), checkout_with_installer windows_env)
   \<and> fs (checkout windows_env) (pip_script windows_env) = None
   \<and> events_since (checkout windows_env) (snd (fetch_get_pip windows_env (checkout windows_env)))
       = [Print ''Downloading get-pip.py...'',
          Urlretrieve ''https://bootstrap.pypa.io/get-pip.py''
            (Path (''C:'' @ bs) [''proj'', ''portable_python'', ''get-pip.py''])]"
proof -
  have a: "fs (checkout_with_installer windows_env) (pip_script windows_env) \<noteq> None"
    by (simp add: checkout_with_installer_def)
  have b: "fs (checkout windows_env) (pip_script windows_env) = None"
    by (simp add: checkout_def path_defs windows_env_def)
  have c: "pip_script windows_env = Path (''C:'' @ bs) [''proj'', ''portable_python'', ''get-pip.py'']"
    by (simp add: path_defs windows_env_def)
  from get_pip_fetched_iff_absent [of "checkout_with_installer windows_env" windows_env]
    get_pip_fetched_iff_absent [of "checkout windows_env" windows_env] a b c
  show ?thesis by (simp add: get_pip_url_def)
qed

section \<open>The directories and the unsupported platforms\<close>

lemma unsupported_no_url:
  "\<not> supported_system s \<Longrightarrow> get_python_download_url s m = None"
  by (simp add: get_python_download_url_def supported_system_def Let_def)

lemma supported_url:
  "supported_system s \<Longrightarrow> \<exists>u. get_python_download_url s m = Some u"
  by (simp add: get_python_download_url_def supported_system_def Let_def)

lemma create_directories_ok:
  assumes "create_directories e w = (Inr u, w')"
  shows "fs w' = (fs w)(portable_dir e \<mapsto> Dir, python_dir e \<mapsto> Dir)"
    and "trace w' = trace w @ [Print (''Setting up portable Python environment in ''
                                       @ str_path (path_sep e) (python_dir e))]"
    and "directories_creatable e (fs w)"
  using assms
  by (auto simp: create_directories_def step_defs mkdir_exist_ok_def python_dir_def
      directories_creatable_def can_mkdir_def fun_upd_idem
      split: option.splits node.splits if_splits)

lemma create_directories_run:
  assumes "directories_creatable e (fs w)"
  shows "create_directories e w =
     (Inr (), w\<lparr>fs := (fs w)(portable_dir e \<mapsto> Dir, python_dir e \<mapsto> Dir),
        trace := trace w @ [Print (''Setting up portable Python environment in ''
                                    @ str_path (path_sep e) (python_dir e))]\<rparr>)"
  using assms
  by (auto simp: create_directories_def step_defs mkdir_exist_ok_def python_dir_def
      directories_creatable_def can_mkdir_def fun_upd_idem
      split: option.splits node.splits if_splits)

lemma create_directories_frame:
  assumes "create_directories e w = (r, w')"
  shows "\<forall>p. p \<noteq> portable_dir e \<longrightarrow> p \<noteq> python_dir e \<longrightarrow> fs w' p = fs w p"
    and "trace w' = trace w @ [Print (''Setting up portable Python environment in ''
                                       @ str_path (path_sep e) (python_dir e))]"
  using assms
  by (auto simp: create_directories_def step_defs mkdir_exist_ok_def
      split: option.splits node.splits if_splits)

lemma setup_unsupported:
  assumes "\<not> supported_system (platform_system e)"
  shows "setup_portable_python_with lit e w =
     (case create_directories e w of
        (Inl err, w1) \<Rightarrow> (Inl err, w1)
      | (Inr u, w1) \<Rightarrow>
          (Inr False, w1\<lparr>trace := trace w1 @
             [Print ''Could not determine Python download URL for your system.'',
              Print ''Please install Python 3.10 manually in the portable_python/python directory.'']\<rparr>))"
  using unsupported_no_url [OF assms, of "platform_machine e"]
  by (simp add: setup_portable_python_with_def step_defs split: prod.splits sum.splits)

text \<open>
  The body on an unsupported platform, whatever the text of the literal: it never returns
  success, asks nothing of the network, unpacks nothing and starts no process; all it
  adds to the trace are printed lines, and all it can change in the file system are the
  two directories. Where the two directories can be made, it prints the two lines of
  the diagnostic and returns the failure flag.
\<close>

lemma setup_unsupported_aborts:
  assumes "\<not> supported_system (platform_system e)"
  shows "(directories_creatable e (fs w) \<longrightarrow>
            setup_portable_python_with lit e w =
              (Inr False,
               w\<lparr>fs := (fs w)(portable_dir e \<mapsto> Dir, python_dir e \<mapsto> Dir),
                 trace := trace w @
                   [Print (''Setting up portable Python environment in ''
                           @ str_path (path_sep e) (python_dir e)),
                    Print ''Could not determine Python download URL for your system.'',
                    Print ''Please install Python 3.10 manually in the portable_python/python directory.'']\<rparr>))
         \<and> fst (setup_portable_python_with lit e w) \<noteq> Inr True
         \<and> (\<forall>ev \<in> set (events_since w (snd (setup_portable_python_with lit e w))). \<exists>s. ev = Print s)
         \<and> (\<forall>p. p \<noteq> portable_dir e \<longrightarrow> p \<noteq> python_dir e \<longrightarrow>
                fs (snd (setup_portable_python_with lit e w)) p = fs w p)
         \<and> (\<forall>p c. fs (snd (setup_portable_python_with lit e w)) p = Some (File c) \<longrightarrow>
                fs w p = Some (File c))"
proof -
  note s = setup_unsupported [OF assms, where w = w and lit = lit]
  obtain r w1 where cd: "create_directories e w = (r, w1)"
    by (cases "create_directories e w")
  note fr = create_directories_frame [OF cd]
  have files: "\<forall>p c. fs w1 p = Some (File c) \<longrightarrow> fs w p = Some (File c)"
    using cd
    by (auto simp: create_directories_def step_defs mkdir_exist_ok_def
        split: option.splits node.splits if_splits)
  have 1: "directories_creatable e (fs w) \<longrightarrow>
            setup_portable_python_with lit e w =
              (Inr False,
               w\<lparr>fs := (fs w)(portable_dir e \<mapsto> Dir, python_dir e \<mapsto> Dir),
                 trace := trace w @
                   [Print (''Setting up portable Python environment in ''
                           @ str_path (path_sep e) (python_dir e)),
                    Print ''Could not determine Python download URL for your system.'',
                    Print ''Please install Python 3.10 manually in the portable_python/python directory.'']\<rparr>)"
    using s create_directories_run [of e w] by simp
  have 2: "fst (setup_portable_python_with lit e w) \<noteq> Inr True"
    using s cd by (cases r) simp_all
  have 3: "\<forall>ev \<in> set (events_since w (snd (setup_portable_python_with lit e w))). \<exists>s. ev = Print s"
    using s cd fr(2) by (cases r) (simp_all add: events_since_def)
  have 4: "\<forall>p. p \<noteq> portable_dir e \<longrightarrow> p \<noteq> python_dir e \<longrightarrow>
                fs (snd (setup_portable_python_with lit e w)) p = fs w p"
    using s cd fr(1) by (cases r) simp_all
  have 5: "\<forall>p c. fs (snd (setup_portable_python_with lit e w)) p = Some (File c) \<longrightarrow>
                fs w p = Some (File c)"
    using s cd files by (cases r) simp_all
  from 1 2 3 4 5 show ?thesis by blast
qed

lemma setup_unsupported_aborts_example:
  "\<not> supported_system (platform_system linux_env)
   \<and> directories_creatable linux_env (fs (checkout linux_env))
   \<and> fst (setup_portable_python_with pth_prefix_escaped linux_env (checkout linux_env)) = Inr False
   \<and> events_since (checkout linux_env) (snd (setup_portable_python_with pth_prefix_escaped linux_env (checkout linux_env)))
       = [Print ''Setting up portable Python environment in /proj/portable_python/python'',
          Print ''Could not determine Python download URL for your system.'',
          Print ''Please install Python 3.10 manually in the portable_python/python directory.'']"
proof -
  have a: "\<not> supported_system (platform_system linux_env)"
    by (simp add: linux_env_def windows_env_def supported_system_def lower_def lower_char_def)
  have b: "directories_creatable linux_env (fs (checkout linux_env))"
    by (simp add: directories_creatable_def can_mkdir_def checkout_def path_defs linux_env_def
        windows_env_def)
  have c: "str_path (path_sep linux_env) (python_dir linux_env) = ''/proj/portable_python/python''"
    by (simp add: path_defs linux_env_def windows_env_def)
  from setup_unsupported_aborts [OF a, where w = "checkout linux_env" and lit = pth_prefix_escaped] b
  have "setup_portable_python_with pth_prefix_escaped linux_env (checkout linux_env) =
              (Inr False,
               (checkout linux_env)\<lparr>fs := (fs (checkout linux_env))
                   (portable_dir linux_env \<mapsto> Dir, python_dir linux_env \<mapsto> Dir),
                 trace := trace (checkout linux_env) @
                   [Print (''Setting up portable Python environment in ''
                           @ str_path (path_sep linux_env) (python_dir linux_env)),
                    Print ''Could not determine Python download URL for your system.'',
                    Print ''Please install Python 3.10 manually in the portable_python/python directory.'']\<rparr>)"
    by blast
  then show ?thesis using a b c by (simp add: events_since_def)
qed

text \<open>
  In the body the two directories are made before the platform is looked at: making them
  does not depend on the platform, an exception there ends the body whatever the
  platform is, and once they are made both exist.
\<close>

lemma directories_precede_platform:
  "create_directories (e\<lparr>platform_system := s, platform_machine := m\<rparr>) w
     = create_directories e w
   \<and> (\<forall>err w1. create_directories e w = (Inl err, w1) \<longrightarrow>
         setup_portable_python_with lit e w = (Inl err, w1))
   \<and> (\<forall>w1. create_directories e w = (Inr (), w1) \<longrightarrow>
         fs w1 (portable_dir e) = Some Dir \<and> fs w1 (python_dir e) = Some Dir)
   \<and> (\<not> supported_system (platform_system e) \<longrightarrow>
        (\<forall>w'. setup_portable_python_with lit e w = (Inr False, w') \<longrightarrow>
           fs w' (portable_dir e) = Some Dir \<and> fs w' (python_dir e) = Some Dir)
        \<and> (directories_creatable e (fs w) \<longrightarrow>
             fst (setup_portable_python_with lit e w) = Inr False))"
proof -
  have 1: "create_directories (e\<lparr>platform_system := s, platform_machine := m\<rparr>) w
     = create_directories e w"
    by (simp add: create_directories_def path_defs)
  have 2: "setup_portable_python_with lit e w = (Inl err, w1)"
    if "create_directories e w = (Inl err, w1)" for err w1
    using that by (simp add: setup_portable_python_with_def seq_def bnd_def)
  have 3: "fs w1 (portable_dir e) = Some Dir \<and> fs w1 (python_dir e) = Some Dir"
    if "create_directories e w = (Inr (), w1)" for w1
    using create_directories_ok(1) [OF that] by (simp add: python_dir_def)
  have 4: "fs w' (portable_dir e) = Some Dir \<and> fs w' (python_dir e) = Some Dir"
    if u: "\<not> supported_system (platform_system e)"
      and r: "setup_portable_python_with lit e w = (Inr False, w')" for w'
  proof -
    obtain r1 w1 where cd: "create_directories e w = (r1, w1)"
      by (cases "create_directories e w")
    from setup_unsupported [OF u, where w = w and lit = lit] r cd obtain u1 where
      "r1 = Inr u1" and "fs w' = fs w1"
      by (cases r1) auto
    with cd 3 [of w1] show ?thesis by simp
  qed
  have 5: "fst (setup_portable_python_with lit e w) = Inr False"
    if u: "\<not> supported_system (platform_system e)" and c: "directories_creatable e (fs w)"
    using setup_unsupported [OF u, where w = w and lit = lit] create_directories_run [OF c] by simp
  from 1 2 3 4 5 show ?thesis by blast
qed

lemma directories_precede_platform_example:
  "\<not> supported_system (platform_system linux_env)
   \<and> directories_creatable linux_env (fs (checkout linux_env))
   \<and> fs (checkout linux_env) (python_dir linux_env) = None
   \<and> fst (setup_portable_python_with pth_prefix_escaped linux_env (checkout linux_env)) = Inr False
   \<and> fs (snd (setup_portable_python_with pth_prefix_escaped linux_env (checkout linux_env))) (portable_dir linux_env)
       = Some Dir
   \<and> fs (snd (setup_portable_python_with pth_prefix_escaped linux_env (checkout linux_env))) (python_dir linux_env)
       = Some Dir"
proof -
  have a: "\<not> supported_system (platform_system linux_env)"
    by (simp add: linux_env_def windows_env_def supported_system_def lower_def lower_char_def)
  have b: "directories_creatable linux_env (fs (checkout linux_env))"
    by (simp add: directories_creatable_def can_mkdir_def checkout_def path_defs linux_env_def
        windows_env_def)
  have c: "fs (checkout linux_env) (python_dir linux_env) = None"
    by (simp add: checkout_def path_defs linux_env_def windows_env_def)
  note t = directories_precede_platform [where e = linux_env and w = "checkout linux_env"
      and s = "platform_system linux_env" and m = "platform_machine linux_env"]
  from t a b have d: "fst (setup_portable_python_with pth_prefix_escaped linux_env (checkout linux_env)) = Inr False"
    by blast
  then have "setup_portable_python_with pth_prefix_escaped linux_env (checkout linux_env)
      = (Inr False, snd (setup_portable_python_with pth_prefix_escaped linux_env (checkout linux_env)))"
    by (metis prod.collapse)
  with t a have "fs (snd (setup_portable_python_with pth_prefix_escaped linux_env (checkout linux_env)))
        (portable_dir linux_env) = Some Dir
      \<and> fs (snd (setup_portable_python_with pth_prefix_escaped linux_env (checkout linux_env)))
        (python_dir linux_env) = Some Dir"
    by blast
  with a b c d show ?thesis by simp
qed

section \<open>The exit status of the processes\<close>

lemma paths_status:
  "portable_dir (e\<lparr>proc_status := st\<rparr>) = portable_dir e"
  "python_dir (e\<lparr>proc_status := st\<rparr>) = python_dir e"
  "python_zip (e\<lparr>proc_status := st\<rparr>) = python_zip e"
  "pth_file (e\<lparr>proc_status := st\<rparr>) = pth_file e"
  "pip_script (e\<lparr>proc_status := st\<rparr>) = pip_script e"
  "python_exe (e\<lparr>proc_status := st\<rparr>) = python_exe e"
  "requirements_file (e\<lparr>proc_status := st\<rparr>) = requirements_file e"
  "activate_bat (e\<lparr>proc_status := st\<rparr>) = activate_bat e"
  "deactivate_bat (e\<lparr>proc_status := st\<rparr>) = deactivate_bat e"
  "pip_bootstrap_args (e\<lparr>proc_status := st\<rparr>) = pip_bootstrap_args e"
  "pip_install_args (e\<lparr>proc_status := st\<rparr>) = pip_install_args e"
  "activate_text (e\<lparr>proc_status := st\<rparr>) = activate_text e"
  by (simp_all add: path_defs pip_bootstrap_args_def pip_install_args_def activate_text_def)

lemma urlretrieve_status:
  "urlretrieve (e\<lparr>proc_status := st\<rparr>) = urlretrieve e"
  by (rule ext)+ (simp add: urlretrieve_def)

lemma extractall_status:
  "extractall (e\<lparr>proc_status := st\<rparr>) = extractall e"
  by (rule ext)+ (simp add: extractall_def)

lemma subprocess_run_status_discarded:
  "seq (subprocess_run (e\<lparr>proc_status := st\<rparr>) args) k = seq (subprocess_run e args) k"
  by (rule ext) (simp add: step_defs subprocess_run_def split: option.splits)

lemma bootstrap_pip_status:
  "bootstrap_pip (e\<lparr>proc_status := st\<rparr>) = bootstrap_pip e"
  by (simp add: bootstrap_pip_def fetch_get_pip_def paths_status urlretrieve_status
      subprocess_run_status_discarded cong: if_cong)

lemma create_activation_scripts_status:
  "create_activation_scripts (e\<lparr>proc_status := st\<rparr>) = create_activation_scripts e"
  by (simp add: create_activation_scripts_def paths_status)

lemma install_dependencies_status:
  "install_dependencies (e\<lparr>proc_status := st\<rparr>) = install_dependencies e"
  by (simp add: install_dependencies_def paths_status subprocess_run_status_discarded
      create_activation_scripts_status cong: if_cong)

lemma configure_and_install_status:
  "configure_and_install lit (e\<lparr>proc_status := st\<rparr>) = configure_and_install lit e"
  by (simp add: configure_and_install_def patch_pth_file_def paths_status
      bootstrap_pip_status install_dependencies_status cong: if_cong)

lemma install_runtime_status:
  "install_runtime (e\<lparr>proc_status := st\<rparr>) url = install_runtime e url"
  by (simp add: install_runtime_def download_file_def extract_zip_def extractall_status
      urlretrieve_status paths_status)

lemma create_directories_status:
  "create_directories (e\<lparr>proc_status := st\<rparr>) = create_directories e"
  by (simp add: create_directories_def paths_status)

text \<open>
  In the body, whatever the two processes exit with, the run is the same: the same result
  and the same world.
\<close>

lemma exit_status_ignored:
  "setup_portable_python_with lit (e\<lparr>proc_status := st\<rparr>) w = setup_portable_python_with lit e w"
  by (simp add: setup_portable_python_with_def create_directories_status install_runtime_status
      configure_and_install_status cong: option.case_cong)

lemmas run_defs = setup_portable_python_with_def create_directories_def install_runtime_def
  configure_and_install_def install_dependencies_def create_activation_scripts_def
  bootstrap_pip_def fetch_get_pip_def patch_pth_file_def download_file_def extract_zip_def
  extractall_def urlretrieve_def subprocess_run_def mkdir_exist_ok_def read_text_def
  write_text_def unlink_def step_defs

lemma windows_run_succeeds:
  "fst (setup_portable_python_with pth_prefix_escaped windows_env (checkout windows_env)) = Inr True"
  by (simp add: run_defs path_defs get_python_download_url_def lower_def lower_char_def
      windows_env_def checkout_def)

lemma exit_status_ignored_example:
  "proc_status windows_env (pip_bootstrap_args windows_env) (fs (checkout windows_env)) = 1
   \<and> fst (setup_portable_python_with pth_prefix_escaped windows_env (checkout windows_env)) = Inr True
   \<and> fst (setup_portable_python_with pth_prefix_escaped (windows_env\<lparr>proc_status := \<lambda>args f. 0\<rparr>)
            (checkout windows_env)) = Inr True
   \<and> fst (setup_portable_python_with pth_prefix_escaped (windows_env\<lparr>proc_status := \<lambda>args f. 2\<rparr>)
            (checkout windows_env)) = Inr True"
  using exit_status_ignored [where e = windows_env and st = "\<lambda>args f. 0"
      and w = "checkout windows_env" and lit = pth_prefix_escaped]
    exit_status_ignored [where e = windows_env and st = "\<lambda>args f. 2"
      and w = "checkout windows_env" and lit = pth_prefix_escaped]
    windows_run_succeeds
  by (simp add: windows_env_def)

section \<open>The run up to the dependency manifest\<close>

lemma seq_Inr:
  "seq m k w = (Inr x, w') \<Longrightarrow> \<exists>y w1. m w = (Inr y, w1) \<and> k w1 = (Inr x, w')"
  by (auto simp: seq_def bnd_def split: prod.splits sum.splits)

lemma install_runtime_trace:
  assumes "install_runtime e u w = (Inr x, w')"
  shows "trace w' = trace w @
     [Print (''Downloading '' @ u @ ''...''),
      Urlretrieve u (python_zip e),
      Print (''Downloaded to '' @ str_path (path_sep e) (python_zip e)),
      Print (''Extracting '' @ str_path (path_sep e) (python_zip e) @ ''...''),
      ExtractAll (python_zip e) (python_dir e),
      Print (''Extracted to '' @ str_path (path_sep e) (python_dir e))]"
  using assms
  by (auto simp: install_runtime_def download_file_def extract_zip_def extractall_def
      urlretrieve_def read_text_def write_text_def unlink_def step_defs
      split: option.splits node.splits if_splits)

lemma patch_pth_file_trace:
  "patch_pth_file lit e w = (r, w') \<Longrightarrow> trace w' = trace w"
  by (auto simp: patch_pth_file_def read_text_def write_text_def step_defs
      split: option.splits node.splits if_splits)

lemma fetch_get_pip_ok:
  assumes "fetch_get_pip e w = (Inr x, w')"
  shows "trace w' = trace w @
           (if fs w (pip_script e) = None
            then [Print ''Downloading get-pip.py...'', Urlretrieve get_pip_url (pip_script e)]
            else [])"
    and "fs w (pip_script e) = None \<longrightarrow>
           (\<exists>c. fetch e get_pip_url = Some c \<and> fs w' = (fs w)(pip_script e \<mapsto> File c))"
    and "fs w (pip_script e) \<noteq> None \<longrightarrow> fs w' = fs w"
  using assms
  by (auto simp: fetch_get_pip_def urlretrieve_def write_text_def step_defs
      split: option.splits node.splits if_splits)

lemma bootstrap_pip_ok:
  assumes "bootstrap_pip e w = (Inr x, w')"
  shows "\<exists>w1. fetch_get_pip e w = (Inr (), w1)
           \<and> proc_effect e (pip_bootstrap_args e) (fs w1) = Some (fs w')
           \<and> trace w' = trace w1 @ [Print ''Installing pip...'',
                                      SubprocessRun (pip_bootstrap_args e)]"
proof -
  from assms obtain y w1 where f: "fetch_get_pip e w = (Inr y, w1)"
    and r: "seq (print ''Installing pip...'')
              (seq (subprocess_run e (pip_bootstrap_args e)) (ret ())) w1 = (Inr x, w')"
    unfolding bootstrap_pip_def by (blast dest: seq_Inr)
  from r run_installer [of e w1] have
    "proc_effect e (pip_bootstrap_args e) (fs w1) = Some (fs w')
     \<and> trace w' = trace w1 @ [Print ''Installing pip...'', SubprocessRun (pip_bootstrap_args e)]"
    by (auto split: option.splits)
  with f show ?thesis by simp
qed

lemma install_dependencies_absent:
  "fs w (requirements_file e) = None \<Longrightarrow>
   install_dependencies e w =
     (Inr False, w\<lparr>trace := trace w @
        [Print ''requirements.txt not found. Please create it with your project dependencies.'']\<rparr>)"
  by (simp add: install_dependencies_def step_defs)

lemma install_dependencies_present:
  "fs w (requirements_file e) \<noteq> None \<Longrightarrow> fst (install_dependencies e w) \<noteq> Inr False"
  by (auto simp: install_dependencies_def create_activation_scripts_def subprocess_run_def
      write_text_def step_defs split: option.splits node.splits if_splits)

lemma install_dependencies_False:
  assumes "install_dependencies e w = (Inr False, w')"
  shows "fs w (requirements_file e) = None"
    and "w' = w\<lparr>trace := trace w @
        [Print ''requirements.txt not found. Please create it with your project dependencies.'']\<rparr>"
  using assms install_dependencies_present [of w e] install_dependencies_absent [of w e]
  by (cases "fs w (requirements_file e) = None"; simp)+

lemma setup_supported_False:
  assumes run: "setup_portable_python_with lit e w = (Inr False, w')"
    and sup: "supported_system (platform_system e)"
  shows "\<exists>u w2 w3 w4 w5.
      get_python_download_url (platform_system e) (platform_machine e) = Some u
      \<and> seq (create_directories e) (install_runtime e u) w = (Inr (), w2)
      \<and> patch_pth_file lit e w2 = (Inr (), w3)
      \<and> fetch_get_pip e w3 = (Inr (), w4)
      \<and> bootstrap_pip e w3 = (Inr (), w5)
      \<and> proc_effect e (pip_bootstrap_args e) (fs w4) = Some (fs w5)
      \<and> trace w5 = trace w4 @ [Print ''Installing pip...'', SubprocessRun (pip_bootstrap_args e)]
      \<and> install_dependencies e w5 = (Inr False, w')"
proof -
  from supported_url [OF sup] obtain u where
    u: "get_python_download_url (platform_system e) (platform_machine e) = Some u" by blast
  from run u have "seq (create_directories e)
      (seq (install_runtime e u) (configure_and_install lit e)) w = (Inr False, w')"
    by (simp add: setup_portable_python_with_def)
  then obtain w1 w2 where cd: "create_directories e w = (Inr (), w1)"
    and ir: "install_runtime e u w1 = (Inr (), w2)"
    and ci: "configure_and_install lit e w2 = (Inr False, w')"
    by (fastforce dest: seq_Inr)
  from ci obtain w3 w5 where pa: "patch_pth_file lit e w2 = (Inr (), w3)"
    and bp: "bootstrap_pip e w3 = (Inr (), w5)"
    and idp: "install_dependencies e w5 = (Inr False, w')"
    unfolding configure_and_install_def by (fastforce dest: seq_Inr)
  from bootstrap_pip_ok [OF bp] obtain w4 where
    "fetch_get_pip e w3 = (Inr (), w4)"
    "proc_effect e (pip_bootstrap_args e) (fs w4) = Some (fs w5)"
    "trace w5 = trace w4 @ [Print ''Installing pip...'', SubprocessRun (pip_bootstrap_args e)]"
    by blast
  moreover from cd ir have "seq (create_directories e) (install_runtime e u) w = (Inr (), w2)"
    by (simp add: seq_def bnd_def)
  ultimately show ?thesis using u pa bp idp by blast
qed

text \<open>
  A run of the body on a supported platform that returns the failure flag has failed on
  the missing dependency manifest, and by then it has done all that comes before: it has
  fetched the installer script if nothing was at its place and it has started the
  installer process, whose file system is the one the run ends with.
\<close>

lemma missing_requirements_not_atomic:
  assumes "setup_portable_python_with lit e w = (Inr False, w')"
    and "supported_system (platform_system e)"
  shows "\<exists>u w2 w3 w4.
      get_python_download_url (platform_system e) (platform_machine e) = Some u
      \<and> seq (create_directories e) (install_runtime e u) w = (Inr (), w2)
      \<and> patch_pth_file lit e w2 = (Inr (), w3)
      \<and> fetch_get_pip e w3 = (Inr (), w4)
      \<and> (fs w3 (pip_script e) = None \<longrightarrow>
            (\<exists>c. fetch e get_pip_url = Some c \<and> fs w4 = (fs w3)(pip_script e \<mapsto> File c)))
      \<and> (fs w3 (pip_script e) \<noteq> None \<longrightarrow> fs w4 = fs w3)
      \<and> proc_effect e (pip_bootstrap_args e) (fs w4) = Some (fs w')
      \<and> fs w' (requirements_file e) = None
      \<and> events_since w w' =
          [Print (''Setting up portable Python environment in ''
                  @ str_path (path_sep e) (python_dir e)),
           Print (''Downloading '' @ u @ ''...''),
           Urlretrieve u (python_zip e),
           Print (''Downloaded to '' @ str_path (path_sep e) (python_zip e)),
           Print (''Extracting '' @ str_path (path_sep e) (python_zip e) @ ''...''),
           ExtractAll (python_zip e) (python_dir e),
           Print (''Extracted to '' @ str_path (path_sep e) (python_dir e))]
          @ (if fs w3 (pip_script e) = None
             then [Print ''Downloading get-pip.py...'',
                   Urlretrieve get_pip_url (pip_script e)]
             else [])
          @ [Print ''Installing pip...'',
             SubprocessRun (pip_bootstrap_args e),
             Print ''requirements.txt not found. Please create it with your project dependencies.'']"
proof -
  from setup_supported_False [OF assms] obtain u w2 w3 w4 w5 where
    u: "get_python_download_url (platform_system e) (platform_machine e) = Some u"
    and pre: "seq (create_directories e) (install_runtime e u) w = (Inr (), w2)"
    and pa: "patch_pth_file lit e w2 = (Inr (), w3)"
    and fg: "fetch_get_pip e w3 = (Inr (), w4)"
    and pe: "proc_effect e (pip_bootstrap_args e) (fs w4) = Some (fs w5)"
    and t5: "trace w5 = trace w4 @ [Print ''Installing pip...'',
                                     SubprocessRun (pip_bootstrap_args e)]"
    and idp: "install_dependencies e w5 = (Inr False, w')"
    by blast
  from pre obtain w1 where cd: "create_directories e w = (Inr (), w1)"
    and ir: "install_runtime e u w1 = (Inr (), w2)"
    by (fastforce dest: seq_Inr)
  note t1 = create_directories_ok(2) [OF cd]
  note t2 = install_runtime_trace [OF ir]
  note t3 = patch_pth_file_trace [OF pa]
  note f4 = fetch_get_pip_ok [OF fg]
  note d = install_dependencies_False [OF idp]
  have fs': "fs w' = fs w5" using d(2) by simp
  have tr: "trace w' = trace w5 @
    [Print ''requirements.txt not found. Please create it with your project dependencies.'']"
    using d(2) by simp
  have ev: "events_since w w' =
          [Print (''Setting up portable Python environment in ''
                  @ str_path (path_sep e) (python_dir e)),
           Print (''Downloading '' @ u @ ''...''),
           Urlretrieve u (python_zip e),
           Print (''Downloaded to '' @ str_path (path_sep e) (python_zip e)),
           Print (''Extracting '' @ str_path (path_sep e) (python_zip e) @ ''...''),
           ExtractAll (python_zip e) (python_dir e),
           Print (''Extracted to '' @ str_path (path_sep e) (python_dir e))]
          @ (if fs w3 (pip_script e) = None
             then [Print ''Downloading get-pip.py...'',
                   Urlretrieve get_pip_url (pip_script e)]
             else [])
          @ [Print ''Installing pip...'',
             SubprocessRun (pip_bootstrap_args e),
             Print ''requirements.txt not found. Please create it with your project dependencies.'']"
    unfolding events_since_def tr t5 f4(1) t3 t2 t1 by simp
  from u pre pa fg f4(2,3) pe fs' d(1) ev show ?thesis
    by (intro exI [of _ u] exI [of _ w2] exI [of _ w3] exI [of _ w4]) simp
qed

lemma windows_run_without_requirements:
  "fst (setup_portable_python_with pth_prefix_escaped windows_env (checkout_without_requirements windows_env)) = Inr False"
  by (simp add: run_defs path_defs get_python_download_url_def lower_def lower_char_def
      windows_env_def checkout_without_requirements_def)

lemma missing_requirements_not_atomic_example:
  "supported_system (platform_system windows_env)
   \<and> fst (setup_portable_python_with pth_prefix_escaped windows_env (checkout_without_requirements windows_env))
       = Inr False
   \<and> SubprocessRun (pip_bootstrap_args windows_env)
       \<in> set (events_since (checkout_without_requirements windows_env)
                (snd (setup_portable_python_with pth_prefix_escaped windows_env
                       (checkout_without_requirements windows_env))))
   \<and> fs (checkout_without_requirements windows_env) (pip_script windows_env) = None
   \<and> fs (snd (setup_portable_python_with pth_prefix_escaped windows_env (checkout_without_requirements windows_env)))
        (pip_script windows_env) = Some (File ''bytes'')
   \<and> fs (snd (setup_portable_python_with pth_prefix_escaped windows_env (checkout_without_requirements windows_env)))
        (activate_bat windows_env) = None"
proof -
  have a: "supported_system (platform_system windows_env)"
    by (simp add: supported_system_def windows_env_def lower_def lower_char_def)
  have b: "setup_portable_python_with pth_prefix_escaped windows_env (checkout_without_requirements windows_env)
      = (Inr False,
         snd (setup_portable_python_with pth_prefix_escaped windows_env (checkout_without_requirements windows_env)))"
    using windows_run_without_requirements by (metis prod.collapse)
  from missing_requirements_not_atomic [OF b a]
  have c: "SubprocessRun (pip_bootstrap_args windows_env)
       \<in> set (events_since (checkout_without_requirements windows_env)
                (snd (setup_portable_python_with pth_prefix_escaped windows_env
                       (checkout_without_requirements windows_env))))"
    by auto
  have d: "fs (checkout_without_requirements windows_env) (pip_script windows_env) = None"
    by (simp add: checkout_without_requirements_def path_defs windows_env_def)
  have e: "fs (snd (setup_portable_python_with pth_prefix_escaped windows_env (checkout_without_requirements windows_env)))
        (pip_script windows_env) = Some (File ''bytes'')"
    by (simp add: run_defs path_defs get_python_download_url_def lower_def lower_char_def
      windows_env_def checkout_without_requirements_def)
  have f: "fs (snd (setup_portable_python_with pth_prefix_escaped windows_env (checkout_without_requirements windows_env)))
        (activate_bat windows_env) = None"
    by (simp add: run_defs path_defs get_python_download_url_def lower_def lower_char_def
      windows_env_def checkout_without_requirements_def)
  from a windows_run_without_requirements c d e f show ?thesis by simp
qed

section \<open>The missing dependency manifest\<close>

lemma preserves_bnd:
  assumes "preserves I m" and "\<And>x. preserves I (f x)"
  shows "preserves I (bnd m f)"
  using assms unfolding preserves_def bnd_def
  by (auto split: prod.splits sum.splits)

lemma preserves_seq:
  "preserves I m \<Longrightarrow> preserves I k \<Longrightarrow> preserves I (seq m k)"
  unfolding seq_def by (rule preserves_bnd)

lemma preserves_ret: "preserves I (ret x)"
  by (simp add: preserves_def ret_def)

lemma preserves_raise: "preserves I (raise x)"
  by (simp add: preserves_def raise_def)

lemma preserves_if:
  "preserves I m \<Longrightarrow> preserves I k \<Longrightarrow> preserves I (if b then m else k)"
  by simp

lemma niy_emit:
  "ev \<noteq> SubprocessRun (pip_install_args e) \<Longrightarrow> preserves (no_install_yet e t0) (emit ev)"
  by (auto simp: preserves_def no_install_yet_def emit_def)

lemma niy_print: "preserves (no_install_yet e t0) (print s)"
  by (simp add: print_def niy_emit)

lemma niy_path_exists: "preserves (no_install_yet e t0) (path_exists p)"
  by (simp add: preserves_def path_exists_def)

lemma niy_read_text: "preserves (no_install_yet e t0) (read_text p)"
  by (auto simp: preserves_def read_text_def split: option.splits node.splits)

lemma niy_mkdir:
  "p \<noteq> requirements_file e \<Longrightarrow> preserves (no_install_yet e t0) (mkdir_exist_ok p)"
  by (auto simp: preserves_def no_install_yet_def mkdir_exist_ok_def
      split: option.splits node.splits)

lemma niy_write_text:
  "p \<noteq> requirements_file e \<Longrightarrow> preserves (no_install_yet e t0) (write_text p c)"
  by (auto simp: preserves_def no_install_yet_def write_text_def
      split: option.splits node.splits)

lemma niy_unlink: "preserves (no_install_yet e t0) (unlink p)"
  by (auto simp: preserves_def no_install_yet_def unlink_def
      split: option.splits node.splits)

lemma niy_urlretrieve:
  "p \<noteq> requirements_file e \<Longrightarrow> preserves (no_install_yet e t0) (urlretrieve e u p)"
  unfolding urlretrieve_def
  by (intro preserves_seq niy_emit) (auto simp: preserves_raise niy_write_text split: option.splits)

lemma niy_unzip:
  "keeps_absent e (requirements_file e) \<Longrightarrow>
   preserves (no_install_yet e t0)
     (\<lambda>w. case unzip e archive dest (fs w) of
             None \<Rightarrow> (Inl BadZipFile, w)
           | Some f \<Rightarrow> (Inr (), w\<lparr>fs := f\<rparr>))"
  by (auto simp: preserves_def no_install_yet_def keeps_absent_def split: option.splits)

lemma niy_extractall:
  "keeps_absent e (requirements_file e) \<Longrightarrow>
   preserves (no_install_yet e t0) (extractall e z d)"
  unfolding extractall_def
  by (intro preserves_bnd preserves_seq niy_read_text niy_emit niy_unzip) simp_all

lemma niy_proc:
  "keeps_absent e (requirements_file e) \<Longrightarrow>
   preserves (no_install_yet e t0)
     (\<lambda>w. case proc_effect e args (fs w) of
             None \<Rightarrow> (Inl OSError, w)
           | Some f \<Rightarrow> (Inr (proc_status e args (fs w)), w\<lparr>fs := f\<rparr>))"
  by (auto simp: preserves_def no_install_yet_def keeps_absent_def split: option.splits)

lemma niy_subprocess_run:
  "keeps_absent e (requirements_file e) \<Longrightarrow> args \<noteq> pip_install_args e \<Longrightarrow>
   preserves (no_install_yet e t0) (subprocess_run e args)"
  unfolding subprocess_run_def
  by (intro preserves_seq niy_emit niy_proc) simp_all

lemma niy_create_directories:
  "preserves (no_install_yet e t0) (create_directories e)"
  unfolding create_directories_def
  by (intro preserves_seq niy_print niy_mkdir) (simp_all add: path_defs)

lemma niy_install_runtime:
  "keeps_absent e (requirements_file e) \<Longrightarrow>
   preserves (no_install_yet e t0) (install_runtime e u)"
  unfolding install_runtime_def download_file_def extract_zip_def
  by (intro preserves_seq niy_print niy_urlretrieve niy_extractall niy_unlink)
    (simp_all add: path_defs)

lemma niy_patch_pth_file:
  "preserves (no_install_yet e t0) (patch_pth_file lit e)"
  unfolding patch_pth_file_def
  by (intro preserves_bnd preserves_if preserves_ret niy_path_exists niy_read_text niy_write_text)
    (simp_all add: path_defs)

lemma niy_bootstrap_pip:
  "keeps_absent e (requirements_file e) \<Longrightarrow>
   preserves (no_install_yet e t0) (bootstrap_pip e)"
  unfolding bootstrap_pip_def fetch_get_pip_def
  by (intro preserves_bnd preserves_seq preserves_if preserves_ret niy_path_exists niy_print
      niy_urlretrieve niy_subprocess_run)
    (simp_all add: path_defs pip_bootstrap_args_def pip_install_args_def)


lemma seq_post:
  assumes "preserves I m" and "I w"
    and "\<And>w1. I w1 \<Longrightarrow> Q (k w1)" and "\<And>err w1. I w1 \<Longrightarrow> Q (Inl err, w1)"
  shows "Q (seq m k w)"
proof (cases "m w")
  case (Pair r w1)
  with assms(1,2) have "I w1" by (auto simp: preserves_def)
  with Pair assms(3,4) show ?thesis
    by (cases r) (simp_all add: seq_def bnd_def)
qed

lemma niy_install_dependencies:
  assumes "no_install_yet e t0 w"
  shows "no_install_yet e t0 (snd (install_dependencies e w))
         \<and> fst (install_dependencies e w) \<noteq> Inr True"
proof -
  from assms obtain evs where a: "fs w (requirements_file e) = None"
    and t: "trace w = t0 @ evs" and n: "SubprocessRun (pip_install_args e) \<notin> set evs"
    unfolding no_install_yet_def by blast
  let ?p = "Print ''requirements.txt not found. Please create it with your project dependencies.''"
  have r: "install_dependencies e w = (Inr False, w\<lparr>trace := trace w @ [?p]\<rparr>)"
    using install_dependencies_absent [OF a] .
  have "\<exists>evs'. trace (w\<lparr>trace := trace w @ [?p]\<rparr>) = t0 @ evs'
           \<and> SubprocessRun (pip_install_args e) \<notin> set evs'"
    by (rule exI [of _ "evs @ [?p]"]) (simp add: t n)
  then have "no_install_yet e t0 (w\<lparr>trace := trace w @ [?p]\<rparr>)"
    unfolding no_install_yet_def using a by simp
  with r show ?thesis by simp
qed

lemma niy_setup:
  assumes k: "keeps_absent e (requirements_file e)" and i: "no_install_yet e t0 w"
  shows "no_install_yet e t0 (snd (setup_portable_python_with lit e w))
         \<and> fst (setup_portable_python_with lit e w) \<noteq> Inr True"
proof -
  define Q :: "(error + bool) \<times> world \<Rightarrow> bool"
    where "Q = (\<lambda>rw. no_install_yet e t0 (snd rw) \<and> fst rw \<noteq> Inr True)"
  have err: "Q (Inl x, w1)" if "no_install_yet e t0 w1" for x w1
    using that by (simp add: Q_def)
  have deps: "Q (install_dependencies e w1)" if "no_install_yet e t0 w1" for w1
    using niy_install_dependencies [OF that] by (simp add: Q_def)
  have boot: "Q (seq (bootstrap_pip e) (install_dependencies e) w1)"
    if "no_install_yet e t0 w1" for w1
    using niy_bootstrap_pip [OF k] that deps err
    by (rule seq_post [where I = "no_install_yet e t0" and Q = Q])
  have conf: "Q (configure_and_install lit e w1)" if "no_install_yet e t0 w1" for w1
    unfolding configure_and_install_def
    using niy_patch_pth_file that boot err
    by (rule seq_post [where I = "no_install_yet e t0" and Q = Q])
  have refuse: "Q (seq (print a) (seq (print b) (ret False)) w1)"
    if "no_install_yet e t0 w1" for w1 a b
  proof -
    have "preserves (no_install_yet e t0) (seq (print a) (seq (print b) (ret False)))"
      by (intro preserves_seq niy_print preserves_ret)
    with that have "no_install_yet e t0 (snd (seq (print a) (seq (print b) (ret False)) w1))"
      by (simp add: preserves_def)
    moreover have "fst (seq (print a) (seq (print b) (ret False)) w1) = Inr False"
      by (simp add: step_defs)
    ultimately show ?thesis by (simp add: Q_def)
  qed
  have rest: "Q ((case get_python_download_url (platform_system e) (platform_machine e) of
          None \<Rightarrow> seq (print ''Could not determine Python download URL for your system.'')
             (seq (print ''Please install Python 3.10 manually in the portable_python/python directory.'')
                (ret False))
        | Some python_url \<Rightarrow> seq (install_runtime e python_url) (configure_and_install lit e)) w1)"
    if w1: "no_install_yet e t0 w1" for w1
  proof (cases "get_python_download_url (platform_system e) (platform_machine e)")
    case None
    then show ?thesis using refuse [OF w1] by simp
  next
    case (Some u)
    have "Q (seq (install_runtime e u) (configure_and_install lit e) w1)"
      using niy_install_runtime [OF k] w1 conf err
      by (rule seq_post [where I = "no_install_yet e t0" and Q = Q])
    with Some show ?thesis by simp
  qed
  have "Q (setup_portable_python_with lit e w)"
    unfolding setup_portable_python_with_def
    using niy_create_directories i rest err
    by (rule seq_post [where I = "no_install_yet e t0" and Q = Q])
  then show ?thesis by (simp add: Q_def)
qed

text \<open>
  Where the dependency manifest is not there, the step that installs the dependencies
  prints its complaint and returns the failure flag, and does nothing else. For the
  whole body: started without the manifest, on a machine whose archive and processes do
  not create it, it never returns the success flag, never asks \<open>pip\<close> for the
  dependencies, and ends without the manifest.
\<close>

lemma missing_requirements_fails:
  "(fs w (requirements_file e) = None \<longrightarrow>
      install_dependencies e w =
        (Inr False, w\<lparr>trace := trace w @
           [Print ''requirements.txt not found. Please create it with your project dependencies.'']\<rparr>))
   \<and> (fs w (requirements_file e) = None \<and> keeps_absent e (requirements_file e) \<longrightarrow>
        fst (setup_portable_python_with lit e w) \<noteq> Inr True
        \<and> SubprocessRun (pip_install_args e)
            \<notin> set (events_since w (snd (setup_portable_python_with lit e w)))
        \<and> fs (snd (setup_portable_python_with lit e w)) (requirements_file e) = None)"
proof -
  have 2: "fst (setup_portable_python_with lit e w) \<noteq> Inr True
        \<and> SubprocessRun (pip_install_args e)
            \<notin> set (events_since w (snd (setup_portable_python_with lit e w)))
        \<and> fs (snd (setup_portable_python_with lit e w)) (requirements_file e) = None"
    if a: "fs w (requirements_file e) = None" and k: "keeps_absent e (requirements_file e)"
  proof -
    have "no_install_yet e (trace w) w"
      using a by (simp add: no_install_yet_def)
    from niy_setup [OF k this, where lit = lit] show ?thesis
      by (auto simp: no_install_yet_def events_since_def)
  qed
  from 2 install_dependencies_absent [of w e] show ?thesis by blast
qed

lemma windows_env_keeps_absent:
  "keeps_absent windows_env (requirements_file windows_env)"
proof -
  have u: "unzip windows_env = (\<lambda>archive dest f.
                 Some (f(joinpath dest ''python310._pth'' \<mapsto> File ''python310.zip\<newline>.\<newline>'',
                         joinpath dest ''python.exe'' \<mapsto> File ''MZ'')))"
    and p: "proc_effect windows_env = (\<lambda>args f. Some f)"
    by (simp_all add: windows_env_def)
  show ?thesis
    unfolding keeps_absent_def requirements_file_def u p by auto
qed

lemma missing_requirements_fails_example:
  "fs (checkout_without_requirements windows_env) (requirements_file windows_env) = None
   \<and> keeps_absent windows_env (requirements_file windows_env)
   \<and> fst (setup_portable_python_with pth_prefix_escaped windows_env (checkout_without_requirements windows_env))
       = Inr False
   \<and> SubprocessRun (pip_install_args windows_env)
       \<notin> set (events_since (checkout_without_requirements windows_env)
                (snd (setup_portable_python_with pth_prefix_escaped windows_env
                       (checkout_without_requirements windows_env))))
   \<and> install_dependencies windows_env (checkout_without_requirements windows_env)
       = (Inr False, (checkout_without_requirements windows_env)\<lparr>trace :=
           [Print ''requirements.txt not found. Please create it with your project dependencies.'']\<rparr>)"
proof -
  have a: "fs (checkout_without_requirements windows_env) (requirements_file windows_env) = None"
    by (simp add: checkout_without_requirements_def path_defs windows_env_def)
  have t: "trace (checkout_without_requirements windows_env) = []"
    by (simp add: checkout_without_requirements_def)
  from missing_requirements_fails [where w = "checkout_without_requirements windows_env"
      and e = windows_env and lit = pth_prefix_escaped]
    a windows_env_keeps_absent windows_run_without_requirements t
  show ?thesis by simp
qed

section \<open>The activation scripts\<close>

lemma occurs_in_prefix: "occurs_in p (p @ b)"
proof (cases "p @ b")
  case Nil
  then show ?thesis by simp
next
  case (Cons x xs)
  have "take (length p) (p @ b) = p" by simp
  then have "take (length p) (x # xs) = p" using Cons by simp
  then have "occurs_in p (x # xs)" by simp
  then show ?thesis using Cons by simp
qed

lemma occurs_in_append: "occurs_in p (a @ p @ b)"
proof (induction a)
  case Nil
  show ?case using occurs_in_prefix by simp
next
  case (Cons x a)
  then show ?case by simp
qed

lemma activate_text_split:
  "\<exists>a b. activate_text e = a @ str_path (path_sep e) (python_dir e) @ b"
  unfolding activate_text_def Let_def
  by (metis append.assoc)

lemma activate_has_python_dir:
  "occurs_in (str_path (path_sep e) (python_dir e)) (activate_text e)"
  using activate_text_split [of e] occurs_in_append by metis

lemma occurs_in_split: "occurs_in p t \<Longrightarrow> \<exists>a b. t = a @ p @ b"
proof (induction t)
  case Nil
  then show ?case by simp
next
  case (Cons x t)
  show ?case
  proof (cases "take (length p) (x # t) = p")
    case True
    then have "x # t = [] @ p @ drop (length p) (x # t)"
      by (metis append_Nil append_take_drop_id)
    then show ?thesis by blast
  next
    case False
    with Cons.prems have "occurs_in p t" by simp
    with Cons.IH obtain a b where "t = a @ p @ b" by blast
    then have "x # t = (x # a) @ p @ b" by simp
    then show ?thesis by blast
  qed
qed

lemma occurs_in_trans:
  assumes "occurs_in q p" and "occurs_in p t"
  shows "occurs_in q t"
proof -
  from occurs_in_split [OF assms(1)] obtain a b where p: "p = a @ q @ b" by blast
  from occurs_in_split [OF assms(2)] obtain c d where t: "t = c @ p @ d" by blast
  have "t = (c @ a) @ q @ (b @ d)" using p t by simp
  then show ?thesis using occurs_in_append by metis
qed

lemma intercalate_Cons:
  "ys \<noteq> [] \<Longrightarrow> intercalate sep (x # ys) = x @ sep @ intercalate sep ys"
  by (cases ys) simp_all

lemma intercalate_snoc2:
  "\<exists>a. intercalate sep (ps @ [x, y]) = a @ x @ sep @ y"
proof (induction ps)
  case Nil
  have "intercalate sep ([] @ [x, y]) = [] @ x @ sep @ y" by simp
  then show ?case by blast
next
  case (Cons p ps)
  then obtain a where a: "intercalate sep (ps @ [x, y]) = a @ x @ sep @ y" by blast
  have "intercalate sep ((p # ps) @ [x, y]) = p @ sep @ intercalate sep (ps @ [x, y])"
    by (simp add: intercalate_Cons)
  with a have "intercalate sep ((p # ps) @ [x, y]) = (p @ sep @ a) @ x @ sep @ y"
    by simp
  then show ?case by blast
qed

lemma python_dir_has_portable_python:
  "occurs_in ''portable_python'' (str_path sep (python_dir e))"
proof -
  obtain r ps where root: "project_root e = Path r ps" by (cases "project_root e")
  from intercalate_snoc2 [of sep ps "''portable_python''" "''python''"] obtain a where
    "intercalate sep (ps @ [''portable_python'', ''python'']) =
       a @ ''portable_python'' @ sep @ ''python''" by blast
  then have "str_path sep (python_dir e) = (r @ a) @ ''portable_python'' @ (sep @ ''python'')"
    using root by (simp add: python_dir_def portable_dir_def)
  then show ?thesis using occurs_in_append by metis
qed

lemma deactivate_text_no_portable_python:
  "\<not> occurs_in ''portable_python'' deactivate_text"
  by (simp add: deactivate_text_def)

lemma deactivate_has_no_python_dir:
  "\<not> occurs_in (str_path sep (python_dir e)) deactivate_text"
  using occurs_in_trans [OF python_dir_has_portable_python]
    deactivate_text_no_portable_python by blast

lemma create_scripts_ok:
  assumes "create_activation_scripts e w = (Inr u, w')"
  shows "fs w' = (fs w)(activate_bat e \<mapsto> File (activate_text e),
                        deactivate_bat e \<mapsto> File deactivate_text)"
    and "fs w (project_root e) = Some Dir"
    and "fs w (activate_bat e) \<noteq> Some Dir" and "fs w (deactivate_bat e) \<noteq> Some Dir"
  using assms
  by (auto simp: create_activation_scripts_def step_defs write_text_def activate_bat_def
      deactivate_bat_def split: option.splits node.splits if_splits)

lemma create_scripts_run:
  assumes "fs w (project_root e) = Some Dir"
    and "fs w (activate_bat e) \<noteq> Some Dir" and "fs w (deactivate_bat e) \<noteq> Some Dir"
  shows "create_activation_scripts e w =
     (Inr (), w\<lparr>fs := (fs w)(activate_bat e \<mapsto> File (activate_text e),
                        deactivate_bat e \<mapsto> File deactivate_text),
       trace := trace w @ [Print ''Activation scripts created:'',
          Print (''  - '' @ str_path (path_sep e) (activate_bat e)),
          Print (''  - '' @ str_path (path_sep e) (deactivate_bat e))]\<rparr>)"
  using assms
  by (auto simp: create_activation_scripts_def step_defs write_text_def activate_bat_def
      deactivate_bat_def split: option.splits node.splits if_splits)

text \<open>
  C7, the deactivation script. The deactivation script is a fixed text: it holds no path at
  all, so it does not hold the runtime directory. On the Windows machine:
\<close>

theorem deactivation_script_has_no_path:
  "fs (snd (create_activation_scripts windows_env (checkout windows_env)))
      (deactivate_bat windows_env) = Some (File deactivate_text)
   \<and> \<not> occurs_in (str_path (path_sep windows_env) (python_dir windows_env)) deactivate_text"
proof -
  have "fs (checkout windows_env) (project_root windows_env) = Some Dir"
    "fs (checkout windows_env) (activate_bat windows_env) \<noteq> Some Dir"
    "fs (checkout windows_env) (deactivate_bat windows_env) \<noteq> Some Dir"
    by (simp_all add: checkout_def path_defs windows_env_def)
  from create_scripts_run [OF this]
  have "fs (snd (create_activation_scripts windows_env (checkout windows_env)))
      (deactivate_bat windows_env) = Some (File deactivate_text)"
    by simp
  moreover have
    "\<not> occurs_in (str_path (path_sep windows_env) (python_dir windows_env)) deactivate_text"
    by (simp add: path_defs windows_env_def deactivate_text_def bs_def)
  ultimately show ?thesis by simp
qed

text \<open>
  C7, what holds. \<open>create_activation_scripts\<close> completes exactly when the project root is a
  directory and neither script path is one. Then the activation script is the template
  with the paths put in, and contains the runtime directory path; the deactivation
  script is the fixed text, which on no machine contains that path; neither depends on
  what the two files held before; and running the step again completes and leaves the
  same file system.
\<close>

theorem create_activation_scripts_overwrites:
  "((\<exists>w'. create_activation_scripts e w = (Inr (), w'))
      \<longleftrightarrow> fs w (project_root e) = Some Dir
          \<and> fs w (activate_bat e) \<noteq> Some Dir \<and> fs w (deactivate_bat e) \<noteq> Some Dir)
   \<and> (\<forall>w'. create_activation_scripts e w = (Inr (), w') \<longrightarrow>
         fs w' = (fs w)(activate_bat e \<mapsto> File (activate_text e),
                         deactivate_bat e \<mapsto> File deactivate_text)
         \<and> fst (create_activation_scripts e w') = Inr ()
         \<and> fs (snd (create_activation_scripts e w')) = fs w')
   \<and> occurs_in (str_path (path_sep e) (python_dir e)) (activate_text e)
   \<and> \<not> occurs_in (str_path (path_sep e) (python_dir e)) deactivate_text"
proof -
  have 1: "(\<exists>w'. create_activation_scripts e w = (Inr (), w'))
      \<longleftrightarrow> fs w (project_root e) = Some Dir
          \<and> fs w (activate_bat e) \<noteq> Some Dir \<and> fs w (deactivate_bat e) \<noteq> Some Dir"
    using create_scripts_ok(2,3,4) [of e w] create_scripts_run [of w e] by blast
  have 2: "fs w' = (fs w)(activate_bat e \<mapsto> File (activate_text e),
                         deactivate_bat e \<mapsto> File deactivate_text)
         \<and> fst (create_activation_scripts e w') = Inr ()
         \<and> fs (snd (create_activation_scripts e w')) = fs w'"
    if run: "create_activation_scripts e w = (Inr (), w')" for w'
  proof -
    note ok = create_scripts_ok [OF run]
    have again: "fs w' (project_root e) = Some Dir"
      "fs w' (activate_bat e) \<noteq> Some Dir" "fs w' (deactivate_bat e) \<noteq> Some Dir"
      using ok by (simp_all add: activate_bat_def deactivate_bat_def)
    from create_scripts_run [OF again] ok(1) show ?thesis
      by (simp add: activate_bat_def deactivate_bat_def)
  qed
  from 1 2 activate_has_python_dir [of e] deactivate_has_no_python_dir [of "path_sep e" e]
  show ?thesis by blast
qed

theorem create_activation_scripts_overwrites_witness:
  "fs (checkout windows_env) (project_root windows_env) = Some Dir
   \<and> fs (checkout windows_env) (activate_bat windows_env) \<noteq> Some Dir
   \<and> fs (checkout windows_env) (deactivate_bat windows_env) \<noteq> Some Dir
   \<and> (\<exists>w'. create_activation_scripts windows_env (checkout windows_env) = (Inr (), w')
         \<and> fs w' (activate_bat windows_env) = Some (File (activate_text windows_env))
         \<and> fs w' (deactivate_bat windows_env) = Some (File deactivate_text)
         \<and> fs (snd (create_activation_scripts windows_env w')) = fs w')"
proof -
  have a: "fs (checkout windows_env) (project_root windows_env) = Some Dir"
    "fs (checkout windows_env) (activate_bat windows_env) \<noteq> Some Dir"
    "fs (checkout windows_env) (deactivate_bat windows_env) \<noteq> Some Dir"
    by (simp_all add: checkout_def path_defs windows_env_def)
  note t = create_activation_scripts_overwrites [of windows_env "checkout windows_env"]
  from t a obtain w' where
    r: "create_activation_scripts windows_env (checkout windows_env) = (Inr (), w')"
    by blast
  with t have "fs w' = (fs (checkout windows_env))
        (activate_bat windows_env \<mapsto> File (activate_text windows_env),
         deactivate_bat windows_env \<mapsto> File deactivate_text)"
    and "fs (snd (create_activation_scripts windows_env w')) = fs w'"
    by blast+
  then show ?thesis using a r by (auto simp: activate_bat_def deactivate_bat_def)
qed

section \<open>The script as it is written\<close>

text \<open>
  What precedes is the body of \<open>setup_portable_python\<close> for a text of the literal of
  line 81. The file gives the literal no text: it does not compile, the function raises
  \<open>SyntaxError\<close> wherever it is called, on every machine and in every world, and the
  world is left as it was. The theorems of this section run the function as it is
  written.
\<close>

text \<open>
  C3. On the Windows machine, with no dependency manifest in the project: the claim has
  the workflow return the failure flag. The run raises \<open>SyntaxError\<close> instead and
  returns no flag; it starts no process, so the dependencies are indeed not asked for.
\<close>

theorem missing_requirements_returns_no_flag:
  "fs (checkout_without_requirements windows_env) (requirements_file windows_env) = None
   \<and> setup_portable_python windows_env (checkout_without_requirements windows_env)
       = (Inl SyntaxError, checkout_without_requirements windows_env)
   \<and> fst (setup_portable_python windows_env (checkout_without_requirements windows_env))
       \<noteq> Inr False
   \<and> SubprocessRun (pip_install_args windows_env)
       \<notin> set (events_since (checkout_without_requirements windows_env)
                (snd (setup_portable_python windows_env
                       (checkout_without_requirements windows_env))))"
proof -
  have "fs (checkout_without_requirements windows_env) (requirements_file windows_env) = None"
    by (simp add: checkout_without_requirements_def path_defs windows_env_def)
  then show ?thesis by (simp add: setup_portable_python_raises)
qed

text \<open>
  C4. On the Linux machine, an unsupported platform: the claim has the workflow print a
  diagnostic and return the failure flag. The run prints nothing and returns no flag:
  it raises \<open>SyntaxError\<close>. It does download and unpack nothing.
\<close>

theorem unsupported_platform_prints_nothing:
  "\<not> supported_system (platform_system linux_env)
   \<and> setup_portable_python linux_env (checkout linux_env)
       = (Inl SyntaxError, checkout linux_env)
   \<and> fst (setup_portable_python linux_env (checkout linux_env)) \<noteq> Inr False
   \<and> events_since (checkout linux_env)
        (snd (setup_portable_python linux_env (checkout linux_env))) = []"
proof -
  have "\<not> supported_system (platform_system linux_env)"
    by (simp add: linux_env_def windows_env_def supported_system_def lower_def lower_char_def)
  then show ?thesis by (simp add: setup_portable_python_raises)
qed

text \<open>
  C5. On the Windows machine, with an archive unpacked that held no path manifest: the
  claim has the patch step raise no error and the workflow go on. The step touches no
  file, but it raises \<open>SyntaxError\<close>, as does the workflow, which goes no further.
\<close>

theorem absent_manifest_patch_raises:
  "fs (checkout_unpacked_bare windows_env) (pth_file windows_env) = None
   \<and> patch_step windows_env (checkout_unpacked_bare windows_env)
       = (Inl SyntaxError, checkout_unpacked_bare windows_env)
   \<and> fst (patch_step windows_env (checkout_unpacked_bare windows_env)) \<noteq> Inr ()
   \<and> setup_portable_python windows_env (checkout windows_env)
       = (Inl SyntaxError, checkout windows_env)"
proof -
  have "fs (checkout_unpacked_bare windows_env) (pth_file windows_env) = None"
    by (simp add: checkout_unpacked_bare_def checkout_def path_defs windows_env_def)
  then show ?thesis by (simp add: setup_portable_python_raises patch_step_raises)
qed

text \<open>
  C6. On the Windows machine, with the dependency manifest in place: the claim has the
  workflow return the success flag whatever the two processes exit with. Whatever they
  would exit with (0, 1 or 2 here), the run is the same, but it is a run that raises
  \<open>SyntaxError\<close>: no process is started and the success flag is not returned.
\<close>

theorem exit_status_never_reached:
  "proc_status windows_env (pip_bootstrap_args windows_env) (fs (checkout windows_env)) = 1
   \<and> setup_portable_python windows_env (checkout windows_env)
       = (Inl SyntaxError, checkout windows_env)
   \<and> setup_portable_python (windows_env\<lparr>proc_status := \<lambda>args f. 0\<rparr>) (checkout windows_env)
       = (Inl SyntaxError, checkout windows_env)
   \<and> setup_portable_python (windows_env\<lparr>proc_status := \<lambda>args f. 2\<rparr>) (checkout windows_env)
       = (Inl SyntaxError, checkout windows_env)
   \<and> fst (setup_portable_python windows_env (checkout windows_env)) \<noteq> Inr True"
  by (simp add: setup_portable_python_raises windows_env_def)

text \<open>
  C8. On the Windows machine, with nothing at the place of the installer script: the
  claim has the script fetched. The run asks nothing of the network and the place stays
  empty: it raises \<open>SyntaxError\<close> before the fetch.
\<close>

theorem absent_installer_not_fetched:
  "fs (checkout windows_env) (pip_script windows_env) = None
   \<and> fetch windows_env get_pip_url = Some ''bytes''
   \<and> setup_portable_python windows_env (checkout windows_env)
       = (Inl SyntaxError, checkout windows_env)
   \<and> Urlretrieve get_pip_url (pip_script windows_env)
       \<notin> set (events_since (checkout windows_env)
                (snd (setup_portable_python windows_env (checkout windows_env))))
   \<and> fs (snd (setup_portable_python windows_env (checkout windows_env)))
        (pip_script windows_env) = None"
proof -
  have "fs (checkout windows_env) (pip_script windows_env) = None"
    by (simp add: checkout_def path_defs windows_env_def)
  moreover have "fetch windows_env get_pip_url = Some ''bytes''"
    by (simp add: windows_env_def)
  ultimately show ?thesis by (simp add: setup_portable_python_raises)
qed

text \<open>
  C9. On the Linux machine, where \<open>portable_python/python\<close> does not exist before the
  run: the claim has both directories exist after it. The run raises \<open>SyntaxError\<close>
  before it makes any directory, and \<open>portable_python/python\<close> does not exist after
  it either.
\<close>

theorem directories_not_created:
  "fs (checkout linux_env) (python_dir linux_env) = None
   \<and> setup_portable_python linux_env (checkout linux_env)
       = (Inl SyntaxError, checkout linux_env)
   \<and> fs (snd (setup_portable_python linux_env (checkout linux_env))) (python_dir linux_env)
       = None"
proof -
  have "fs (checkout linux_env) (python_dir linux_env) = None"
    by (simp add: checkout_def path_defs linux_env_def windows_env_def)
  then show ?thesis by (simp add: setup_portable_python_raises)
qed

text \<open>
  C10. On the Windows machine, with no dependency manifest in the project: the claim has
  the run fetch the installer script and start the installer process before it returns
  the failure flag. The run does neither, and returns no flag: it raises
  \<open>SyntaxError\<close> and leaves the file system as it found it.
\<close>

theorem missing_requirements_path_not_reached:
  "setup_portable_python windows_env (checkout_without_requirements windows_env)
       = (Inl SyntaxError, checkout_without_requirements windows_env)
   \<and> SubprocessRun (pip_bootstrap_args windows_env)
       \<notin> set (events_since (checkout_without_requirements windows_env)
                (snd (setup_portable_python windows_env
                       (checkout_without_requirements windows_env))))
   \<and> fs (checkout_without_requirements windows_env) (pip_script windows_env) = None
   \<and> fs (snd (setup_portable_python windows_env (checkout_without_requirements windows_env)))
       = fs (checkout_without_requirements windows_env)"
proof -
  have "fs (checkout_without_requirements windows_env) (pip_script windows_env) = None"
    by (simp add: checkout_without_requirements_def path_defs windows_env_def)
  then show ?thesis by (simp add: setup_portable_python_raises)
qed

end
